theory Spec2Isabelle
  imports Complex_Main "HOL-Library.Char_ord" "HOL-Library.List_Lexorder"
begin

section \<open>kuma.wiki.jobs: the cached jobs of the wiki\<close>

subsection \<open>DocumentNearestZoneJob\<close>

text \<open>
  The two tables \<open>fetch\<close> reads. \<open>documents\<close> holds the rows of
  \<open>Document.admin_objects\<close> as pairs of a primary key and the \<open>parent_topic\<close>
  column (\<open>None\<close> is SQL NULL); \<open>zones\<close> holds the \<open>DocumentZone\<close> rows under
  the primary key of their document. A table is a list of rows, \<open>.get\<close> looks a row up
  by key.
\<close>

record 'v wiki_tables =
  documents :: "(int \<times> int option) list"
  zones :: "(int \<times> 'v) list"

datatype query = ZoneGet int | ParentTopicGet int

datatype error = DoesNotExist

text \<open>Python's truth value of a primary key: \<open>None\<close> and \<open>0\<close> are falsy.\<close>

fun truthy :: "int option \<Rightarrow> bool" where
  "truthy None = False"
| "truthy (Some n) = (n \<noteq> 0)"

text \<open>
  \<open>get_parent_id(pk=pk)\<close>: the \<open>parent_topic\<close> value of the row, or
  \<open>Document.DoesNotExist\<close> when there is no row.
\<close>

definition get_parent_id :: "'v wiki_tables \<Rightarrow> int \<Rightarrow> error + int option" where
  "get_parent_id db pk =
     (case map_of (documents db) pk of None \<Rightarrow> Inl DoesNotExist | Some p \<Rightarrow> Inr p)"

text \<open>
  The \<open>while pk:\<close> loop of \<open>DocumentNearestZoneJob.fetch\<close>. The loop has no bound
  in the source, so not returning is the value \<open>None\<close>. \<open>self_empty\<close> is what
  \<open>self.empty()\<close> returns (the method is inherited from the base class);
  \<open>qs\<close> collects the database queries in the order they are made. A truthy
  \<open>pk\<close> is never \<open>None\<close>, so the \<open>None\<close> branch of the case is not reached.
\<close>

partial_function (option) fetch_loop ::
  "'v \<Rightarrow> 'v wiki_tables \<Rightarrow> query list \<Rightarrow> int option \<Rightarrow> (query list \<times> (error + 'v)) option"
where
  "fetch_loop self_empty db qs pk =
     (if \<not> truthy pk then Some (qs, Inr self_empty)
      else (case pk of
              None \<Rightarrow> Some (qs, Inr self_empty)
            | Some n \<Rightarrow>
                (case map_of (zones db) n of
                   Some z \<Rightarrow> Some (qs @ [ZoneGet n], Inr z)
                 | None \<Rightarrow>
                     (case get_parent_id db n of
                        Inl e \<Rightarrow> Some (qs @ [ZoneGet n, ParentTopicGet n], Inl e)
                      | Inr p \<Rightarrow>
                          fetch_loop self_empty db (qs @ [ZoneGet n, ParentTopicGet n]) p))))"

declare fetch_loop.simps [code]

definition DocumentNearestZoneJob_fetch ::
  "'v \<Rightarrow> 'v wiki_tables \<Rightarrow> int option \<Rightarrow> (query list \<times> (error + 'v)) option" where
  "DocumentNearestZoneJob_fetch self_empty db pk = fetch_loop self_empty db [] pk"

text \<open>
  The vocabulary of the properties of the walk. \<open>topic_chain db n ms\<close>: the documents
  \<open>ms\<close> are the successive topic parents of \<open>n\<close>. \<open>walk_queries\<close>: the queries
  of a walk that leaves every document of the list through its parent.
  \<open>parent_rel\<close>: the topic-parent links of the table, as a relation.
\<close>

fun topic_chain :: "'v wiki_tables \<Rightarrow> int \<Rightarrow> int list \<Rightarrow> bool" where
  "topic_chain db n [] = True"
| "topic_chain db n (m # ms) = (map_of (documents db) n = Some (Some m) \<and> topic_chain db m ms)"

definition walk_queries :: "int list \<Rightarrow> query list" where
  "walk_queries ns = concat (map (\<lambda>n. [ZoneGet n, ParentTopicGet n]) ns)"

definition parent_rel :: "'v wiki_tables \<Rightarrow> (int \<times> int) set" where
  "parent_rel db = {(n, m). map_of (documents db) n = Some (Some m)}"

text \<open>
  \<open>walk_end db q r\<close>: the walk stops at \<open>q\<close> with the result \<open>r\<close>: a falsy key, a
  document with a zone, a document without a parent, or a key without a row.
\<close>

definition walk_end :: "'v \<Rightarrow> 'v wiki_tables \<Rightarrow> int \<Rightarrow> (error + 'v) \<Rightarrow> bool" where
  "walk_end e db q r \<longleftrightarrow>
     q = 0 \<and> r = Inr e
   \<or> q \<noteq> 0 \<and> (\<exists>z. map_of (zones db) q = Some z \<and> r = Inr z)
   \<or> q \<noteq> 0 \<and> map_of (zones db) q = None \<and> map_of (documents db) q = Some None \<and> r = Inr e
   \<or> q \<noteq> 0 \<and> map_of (zones db) q = None \<and> map_of (documents db) q = None \<and> r = Inl DoesNotExist"

subsection \<open>Jittered lifetimes\<close>

text \<open>
  \<open>random.randint(a, b)\<close> of the Python library returns an integer \<open>N\<close> with
  \<open>a \<le> N \<le> b\<close>. The draw is modelled by the set of its possible outcomes, and a
  function that uses it returns the set of its possible results. \<open>now\<close> is what
  \<open>time.time()\<close> returns, in seconds.
\<close>

definition randint :: "int \<Rightarrow> int \<Rightarrow> int set" where
  "randint a b = {a..b}"

definition seconds_per_day :: int where
  "seconds_per_day = 24 * 60 * 60"

definition DocumentNearestZoneJob_expiry :: "real \<Rightarrow> real set" where
  "DocumentNearestZoneJob_expiry now =
     (\<lambda>n. now + of_int n) ` randint (1 * seconds_per_day) (10 * seconds_per_day)"

definition DocumentTagsJob_lifetime :: "int set" where
  "DocumentTagsJob_lifetime = randint (1 * seconds_per_day) (10 * seconds_per_day)"

subsection \<open>DocumentContributorsJob\<close>

text \<open>
  The tables \<open>fetch\<close> reads: the primary keys of \<open>Document.objects\<close>, the
  revisions and the user accounts. The result rows are the dictionaries with the keys
  \<open>id\<close>, \<open>username\<close>, \<open>email\<close> and \<open>gravatar_34\<close>.
\<close>

record revision =
  revision_document :: int
  creator_id :: int
  created :: int

record user =
  user_id :: int
  username :: string
  email :: string
  is_active :: bool

record contributor =
  contributor_id :: int
  contributor_username :: string
  contributor_email :: string
  gravatar_34 :: string

record contributors_tables =
  live_documents :: "int list"
  revisions :: "revision list"
  users :: "user list"

text \<open>
  \<open>document.revisions.order_by('-created').values_list('creator_id', flat=True)\<close>.
  The sort is stable; the order the database gives to revisions created at the same
  instant is not fixed by the query.
\<close>

definition recent_creator_ids :: "contributors_tables \<Rightarrow> int \<Rightarrow> int list" where
  "recent_creator_ids db pk =
     map creator_id
       (sort_key (\<lambda>r. - created r) (filter (\<lambda>r. revision_document r = pk) (revisions db)))"

text \<open>
  MySQL's \<open>FIELD(x, y1, ..., yn)\<close>: the position, counted from 1, of the first
  \<open>y\<close> equal to \<open>x\<close>, and 0 when there is none.
\<close>

fun FIELD :: "int \<Rightarrow> int list \<Rightarrow> nat" where
  "FIELD x [] = 0"
| "FIELD x (y # ys) =
     (if x = y then 1 else (case FIELD x ys of 0 \<Rightarrow> 0 | Suc k \<Rightarrow> Suc (Suc k)))"

definition DocumentContributorsJob_empty :: "contributor list" where
  "DocumentContributorsJob_empty = []"

text \<open>
  \<open>DocumentContributorsJob.fetch\<close>; \<open>gravatar_url\<close> is the template helper of
  \<open>kuma.users\<close>, a parameter here. \<open>contributor_row\<close> is the dictionary of
  \<open>values('id', 'username', 'email')\<close> after the loop has added \<open>gravatar_34\<close>.
\<close>

definition contributor_row :: "(string \<Rightarrow> nat \<Rightarrow> string) \<Rightarrow> user \<Rightarrow> contributor" where
  "contributor_row gravatar_url u =
     \<lparr>contributor_id = user_id u, contributor_username = username u,
      contributor_email = email u, gravatar_34 = gravatar_url (email u) 34\<rparr>"

definition DocumentContributorsJob_fetch ::
  "(string \<Rightarrow> nat \<Rightarrow> string) \<Rightarrow> contributors_tables \<Rightarrow> int \<Rightarrow> error + contributor list" where
  "DocumentContributorsJob_fetch gravatar_url db pk =
     (if pk \<notin> set (live_documents db) then Inl DoesNotExist
      else
        let ids = recent_creator_ids db pk in
        if ids = [] then Inr DocumentContributorsJob_empty
        else
          let contributors =
                sort_key (\<lambda>u. FIELD (user_id u) ids)
                  (filter (\<lambda>u. user_id u \<in> set ids \<and> is_active u) (users db))
          in Inr (map (contributor_row gravatar_url) contributors))"

text \<open>Fixed inputs for the concrete scenarios of the contributor job.\<close>

definition example_gravatar_url :: "string \<Rightarrow> nat \<Rightarrow> string" where
  "example_gravatar_url e sz = ''gravatar/'' @ e"

definition example_user :: "int \<Rightarrow> string \<Rightarrow> bool \<Rightarrow> user" where
  "example_user i name active =
     \<lparr>user_id = i, username = name, email = name @ ''@example.com'', is_active = active\<rparr>"

definition example_revisions :: "revision list" where
  "example_revisions =
     [\<lparr>revision_document = 1, creator_id = 9, created = 10\<rparr>,
      \<lparr>revision_document = 1, creator_id = 7, created = 20\<rparr>,
      \<lparr>revision_document = 1, creator_id = 3, created = 30\<rparr>,
      \<lparr>revision_document = 1, creator_id = 7, created = 40\<rparr>]"

definition example_tables :: "bool \<Rightarrow> contributors_tables" where
  "example_tables active3 =
     \<lparr>live_documents = [1, 2], revisions = example_revisions,
      users = [example_user 3 ''carol'' active3, example_user 7 ''alice'' True,
               example_user 9 ''bob'' True]\<rparr>"

subsection \<open>The other jobs\<close>

text \<open>
  \<open>DocumentZoneURLRemapsJob\<close>: the zone rows with the slug and the locale of their
  document; \<open>url_root\<close> is \<open>None\<close> for SQL NULL.
\<close>

record zone_row =
  zone_slug :: string
  zone_locale :: string
  url_root :: "string option"

definition DocumentZoneURLRemapsJob_fetch :: "zone_row list \<Rightarrow> string \<Rightarrow> (string \<times> string) list" where
  "DocumentZoneURLRemapsJob_fetch zone_rows locale =
     map (\<lambda>zone. (''/docs/'' @ zone_slug zone, ''/'' @ the (url_root zone)))
       (filter (\<lambda>zone. zone_locale zone = locale \<and> url_root zone \<noteq> None \<and> url_root zone \<noteq> Some '''')
          zone_rows)"

definition DocumentZoneURLRemapsJob_empty :: "(string \<times> string) list" where
  "DocumentZoneURLRemapsJob_empty = []"

definition DocumentCodeSampleJob_empty :: "string \<rightharpoonup> string" where
  "DocumentCodeSampleJob_empty = Map.empty"

subsection \<open>The job engine\<close>

text \<open>
  Modelled from the spec: the cache key of a job call. The base classes \<open>KumaJob\<close>
  and \<open>GenerationJob\<close> (\<open>kuma.core.jobs\<close>) and the cache library under them are
  not among the source files; section 3 gives the key as namespace, version and
  arguments. A job may declare no version.
\<close>

datatype 'a JobKey = JobKey string "int option" 'a

text \<open>
  Modelled from the spec: the \<open>CacheStore\<close> of sections 3 and 4.1, which is missing
  from the source files: cache entries (value and \<open>expires_at\<close>) and lock entries
  (\<open>acquired_at\<close> and \<open>timeout\<close>), each under a key.
\<close>

record ('k, 'v) CacheStore =
  entries :: "'k \<rightharpoonup> 'v \<times> real"
  locks :: "'k \<rightharpoonup> real \<times> real"

text \<open>
  Modelled from the spec: the store's own eviction (missing from the source files): an
  entry is destroyed at \<open>expires_at\<close>, a lock older than its timeout counts as absent.
\<close>

definition evict :: "real \<Rightarrow> ('k, 'v) CacheStore \<Rightarrow> ('k, 'v) CacheStore" where
  "evict now s =
     \<lparr>entries = (\<lambda>k. case entries s k of
                       None \<Rightarrow> None
                     | Some (v, expires_at) \<Rightarrow> if now < expires_at then Some (v, expires_at) else None),
      locks = (\<lambda>k. case locks s k of
                     None \<Rightarrow> None
                   | Some (acquired_at, timeout) \<Rightarrow>
                       if now < acquired_at + timeout then Some (acquired_at, timeout) else None)\<rparr>"

text \<open>
  Modelled from the spec: \<open>CacheStore.get\<close> (missing from the source files); \<open>None\<close>
  is the distinguished Miss.
\<close>

definition store_get :: "('k, 'v) CacheStore \<Rightarrow> 'k \<Rightarrow> 'v option" where
  "store_get s k = map_option fst (entries s k)"

text \<open>Modelled from the spec: \<open>CacheStore.set(key, value, ttl)\<close> (missing from the source files).\<close>

definition store_set :: "('k, 'v) CacheStore \<Rightarrow> 'k \<Rightarrow> 'v \<Rightarrow> real \<Rightarrow> real \<Rightarrow> ('k, 'v) CacheStore" where
  "store_set s k v now ttl = s\<lparr>entries := (entries s)(k \<mapsto> (v, now + ttl))\<rparr>"

text \<open>
  Modelled from the spec: \<open>CacheStore.try_acquire_lock(key, timeout)\<close> (missing from
  the source files): it succeeds when no live lock is held for the key.
\<close>

definition try_acquire_lock ::
  "('k, 'v) CacheStore \<Rightarrow> 'k \<Rightarrow> real \<Rightarrow> real \<Rightarrow> bool \<times> ('k, 'v) CacheStore" where
  "try_acquire_lock s k timeout now =
     (case locks s k of
        Some held \<Rightarrow> (False, s)
      | None \<Rightarrow> (True, s\<lparr>locks := (locks s)(k \<mapsto> (now, timeout))\<rparr>))"

text \<open>Modelled from the spec: \<open>CacheStore.release_lock(key)\<close> (missing from the source files).\<close>

definition release_lock :: "('k, 'v) CacheStore \<Rightarrow> 'k \<Rightarrow> ('k, 'v) CacheStore" where
  "release_lock s k = s\<lparr>locks := (locks s)(k := None)\<rparr>"

text \<open>
  Modelled from the spec: the \<open>JobPolicy\<close> of section 3 with the fetch callback of
  section 6 (the base class that holds them is missing from the source files). \<open>expiry\<close>
  is the optional override that gives the absolute expiry time; the callback returns
  \<open>None\<close> when it does not return, \<open>Inl\<close> when it raises, \<open>Inr None\<close> for a nil
  result.
\<close>

record ('a, 'e, 'v) JobPolicy =
  job_name :: string
  job_version :: "int option"
  lifetime :: real
  expiry :: "(real \<Rightarrow> real) option"
  refresh_timeout :: real
  fetch_on_miss :: bool
  empty_value :: 'v
  fetch :: "'a \<Rightarrow> ('e + 'v option) option"

text \<open>
  Modelled from the spec: the state the engine works on (missing from the source files):
  the store, the queue of the \<open>RefreshScheduler\<close> and the log of the calls of the
  fetch callback made so far.
\<close>

record ('a, 'v) engine =
  store :: "('a JobKey, 'v) CacheStore"
  scheduled :: "'a list"
  fetched :: "'a list"

text \<open>Modelled from the spec: the key derivation of section 4.2 (missing from the source files).\<close>

definition job_key :: "('a, 'e, 'v) JobPolicy \<Rightarrow> 'a \<Rightarrow> 'a JobKey" where
  "job_key p a = JobKey (job_name p) (job_version p) a"

text \<open>
  Modelled from the spec: the time to live of a stored result (section 4.3, missing from
  the source files): the \<open>expiry()\<close> override takes precedence over \<open>lifetime\<close>.
\<close>

definition ttl :: "('a, 'e, 'v) JobPolicy \<Rightarrow> real \<Rightarrow> real" where
  "ttl p now = (case expiry p of Some f \<Rightarrow> f now - now | None \<Rightarrow> lifetime p)"

text \<open>
  Modelled from the spec: the fetch-and-store sequence of section 4.3, step 3a, run while
  the lock is held (missing from the source files): call the callback, normalise a nil
  result to the empty value, store it, release the lock, return the value. A failure of
  the callback propagates and the lock is released all the same.
\<close>

definition fetch_and_store ::
  "('a, 'e, 'v) JobPolicy \<Rightarrow> real \<Rightarrow> 'a \<Rightarrow> ('a, 'v) engine \<Rightarrow> (('e + 'v) \<times> ('a, 'v) engine) option" where
  "fetch_and_store p now a st =
     (let k = job_key p a in
      case fetch p a of
        None \<Rightarrow> None
      | Some (Inl e) \<Rightarrow>
          Some (Inl e, st\<lparr>store := release_lock (store st) k, fetched := fetched st @ [a]\<rparr>)
      | Some (Inr r) \<Rightarrow>
          let v = (case r of None \<Rightarrow> empty_value p | Some v \<Rightarrow> v) in
          Some (Inr v, st\<lparr>store := release_lock (store_set (store st) k v now (ttl p now)) k,
                           fetched := fetched st @ [a]\<rparr>))"

text \<open>
  Modelled from the spec: \<open>Job.get\<close>, the algorithm of section 4.3 (the base class is
  missing from the source files). \<open>now\<close> is the time of the call.
\<close>

definition Job_get ::
  "('a, 'e, 'v) JobPolicy \<Rightarrow> real \<Rightarrow> 'a \<Rightarrow> ('a, 'v) engine \<Rightarrow> (('e + 'v) \<times> ('a, 'v) engine) option" where
  "Job_get p now a st =
     (let k = job_key p a;
          s = evict now (store st);
          st0 = st\<lparr>store := s\<rparr>
      in case store_get s k of
           Some v \<Rightarrow> Some (Inr v, st0)
         | None \<Rightarrow>
             if fetch_on_miss p then
               (case try_acquire_lock s k (refresh_timeout p) now of
                  (True, s1) \<Rightarrow> fetch_and_store p now a (st0\<lparr>store := s1\<rparr>)
                | (False, s1) \<Rightarrow> Some (Inr (empty_value p), st0))
             else Some (Inr (empty_value p), st0\<lparr>scheduled := scheduled st0 @ [a]\<rparr>))"

text \<open>
  Modelled from the spec: the \<open>RefreshScheduler\<close> of section 4.4 running its oldest
  task (missing from the source files): the fetch-and-store sequence under the same
  lock; a task that does not get the lock does nothing.
\<close>

definition run_deferred ::
  "('a, 'e, 'v) JobPolicy \<Rightarrow> real \<Rightarrow> ('a, 'v) engine \<Rightarrow> ('a, 'v) engine option" where
  "run_deferred p now st =
     (case scheduled st of
        [] \<Rightarrow> Some st
      | a # rest \<Rightarrow>
          let s = evict now (store st);
              st0 = st\<lparr>store := s, scheduled := rest\<rparr>
          in case try_acquire_lock s (job_key p a) (refresh_timeout p) now of
               (True, s1) \<Rightarrow> map_option snd (fetch_and_store p now a (st0\<lparr>store := s1\<rparr>))
             | (False, s1) \<Rightarrow> Some st0)"

subsection \<open>The jobs as policies of the engine\<close>

text \<open>
  The class attributes of \<open>DocumentNearestZoneJob\<close>. It declares no
  \<open>lifetime\<close>, \<open>version\<close> or \<open>fetch_on_miss\<close>: \<open>base_lifetime\<close> is the
  lifetime it inherits, and the specification gives \<open>fetch_on_miss\<close> the default true.
  \<open>drawn\<close> is the outcome of the random draw in \<open>expiry()\<close>. The engine gets the
  result of \<open>fetch\<close> without the query log.
\<close>

definition DocumentNearestZoneJob ::
  "'v \<Rightarrow> real \<Rightarrow> int \<Rightarrow> 'v wiki_tables \<Rightarrow> (int option, error, 'v) JobPolicy" where
  "DocumentNearestZoneJob self_empty base_lifetime drawn db =
     \<lparr>job_name = ''kuma.wiki.jobs.DocumentNearestZoneJob'',
      job_version = None,
      lifetime = base_lifetime,
      expiry = Some (\<lambda>now. now + of_int drawn),
      refresh_timeout = 180,
      fetch_on_miss = True,
      empty_value = self_empty,
      fetch = (\<lambda>pk. case DocumentNearestZoneJob_fetch self_empty db pk of
                       None \<Rightarrow> None
                     | Some (qs, Inl e) \<Rightarrow> Some (Inl e)
                     | Some (qs, Inr z) \<Rightarrow> Some (Inr (Some z)))\<rparr>"

text \<open>
  The class attributes of \<open>DocumentContributorsJob\<close> and its \<open>get\<close>, which
  returns the empty list in maintenance mode before the engine is asked.
  \<open>maintenance_mode\<close> is \<open>settings.MAINTENANCE_MODE\<close>.
\<close>

definition DocumentContributorsJob ::
  "(string \<Rightarrow> nat \<Rightarrow> string) \<Rightarrow> contributors_tables \<Rightarrow> (int, error, contributor list) JobPolicy" where
  "DocumentContributorsJob gravatar_url db =
     \<lparr>job_name = ''kuma.wiki.jobs.DocumentContributorsJob'',
      job_version = Some 2,
      lifetime = 60 * 60 * 12,
      expiry = None,
      refresh_timeout = 30,
      fetch_on_miss = False,
      empty_value = DocumentContributorsJob_empty,
      fetch = (\<lambda>pk. Some (case DocumentContributorsJob_fetch gravatar_url db pk of
                             Inl e \<Rightarrow> Inl e
                           | Inr cs \<Rightarrow> Inr (Some cs)))\<rparr>"

definition DocumentContributorsJob_get ::
  "bool \<Rightarrow> (string \<Rightarrow> nat \<Rightarrow> string) \<Rightarrow> contributors_tables \<Rightarrow> real \<Rightarrow> int \<Rightarrow>
   (int, contributor list) engine \<Rightarrow> ((error + contributor list) \<times> (int, contributor list) engine) option" where
  "DocumentContributorsJob_get maintenance_mode gravatar_url db now pk st =
     (if maintenance_mode then Some (Inr DocumentContributorsJob_empty, st)
      else Job_get (DocumentContributorsJob gravatar_url db) now pk st)"

text \<open>
  The class attributes of \<open>DocumentZoneURLRemapsJob\<close> and \<open>DocumentCodeSampleJob\<close>.
  Neither declares \<open>version\<close> or \<open>fetch_on_miss\<close>; the specification gives
  \<open>fetch_on_miss\<close> the default true. \<open>code_sample\<close> stands for
  \<open>Document.objects.get(pk=pk).extract.code_sample(sample_name)\<close>, which is not among
  the source files.
\<close>

definition DocumentZoneURLRemapsJob ::
  "zone_row list \<Rightarrow> (string, error, (string \<times> string) list) JobPolicy" where
  "DocumentZoneURLRemapsJob zone_rows =
     \<lparr>job_name = ''kuma.wiki.jobs.DocumentZoneURLRemapsJob'',
      job_version = None,
      lifetime = 60 * 60 * 3,
      expiry = None,
      refresh_timeout = 60,
      fetch_on_miss = True,
      empty_value = DocumentZoneURLRemapsJob_empty,
      fetch = (\<lambda>locale. Some (Inr (Some (DocumentZoneURLRemapsJob_fetch zone_rows locale))))\<rparr>"

definition DocumentCodeSampleJob ::
  "(int \<Rightarrow> string \<Rightarrow> error + (string \<rightharpoonup> string)) \<Rightarrow>
   (int \<times> string, error, string \<rightharpoonup> string) JobPolicy" where
  "DocumentCodeSampleJob code_sample =
     \<lparr>job_name = ''kuma.wiki.jobs.DocumentCodeSampleJob'',
      job_version = None,
      lifetime = 60 * 60 * 12,
      expiry = None,
      refresh_timeout = 60,
      fetch_on_miss = True,
      empty_value = DocumentCodeSampleJob_empty,
      fetch = (\<lambda>(pk, sample_name). Some (case code_sample pk sample_name of
                                            Inl e \<Rightarrow> Inl e
                                          | Inr sample \<Rightarrow> Inr (Some sample)))\<rparr>"

text \<open>An engine that has cached nothing, holds no lock and has scheduled nothing.\<close>

definition cold_engine :: "('a, 'v) engine" where
  "cold_engine = \<lparr>store = \<lparr>entries = Map.empty, locks = Map.empty\<rparr>, scheduled = [], fetched = []\<rparr>"

text \<open>Fixed inputs for the concrete scenarios of the engine.\<close>

definition example_code_sample :: "int \<Rightarrow> string \<Rightarrow> error + (string \<rightharpoonup> string)" where
  "example_code_sample pk sample_name =
     (if pk = 1 then Inr [''html'' \<mapsto> ''<p>'' @ sample_name @ ''</p>''] else Inl DoesNotExist)"

definition locked_engine :: "'a JobKey \<Rightarrow> real \<Rightarrow> real \<Rightarrow> ('a, 'v) engine" where
  "locked_engine k acquired_at timeout =
     \<lparr>store = \<lparr>entries = Map.empty, locks = [k \<mapsto> (acquired_at, timeout)]\<rparr>,
      scheduled = [], fetched = []\<rparr>"

subsection \<open>DocumentTagsJob\<close>

text \<open>
  \<open>DocumentTagsJob.fetch\<close>: the names of the tags of the document, ordered by name.
  \<open>taggings\<close> holds a row of document key and tag name for every tag of a document of
  \<open>Document.objects\<close>; a document without tags has no row. The database's collation
  decides the order of the names; here it is the order of the character codes.
\<close>

definition DocumentTagsJob_fetch :: "(int \<times> string) list \<Rightarrow> int \<Rightarrow> string list" where
  "DocumentTagsJob_fetch taggings pk =
     sort (map snd (filter (\<lambda>tagging. fst tagging = pk) taggings))"

text \<open>
  The class attributes of \<open>DocumentTagsJob\<close>. Like \<open>DocumentNearestZoneJob\<close> it
  defines no \<open>empty()\<close>: \<open>self_empty\<close> is the sentinel it inherits, which may be
  nil, so a value of the job is a list of names (\<open>Some\<close>) or nil (\<open>None\<close>).
  \<open>drawn\<close> is the outcome of the random draw of the \<open>lifetime\<close> property.
\<close>

definition DocumentTagsJob ::
  "string list option \<Rightarrow> int \<Rightarrow> (int \<times> string) list \<Rightarrow> (int, error, string list option) JobPolicy" where
  "DocumentTagsJob self_empty drawn taggings =
     \<lparr>job_name = ''kuma.wiki.jobs.DocumentTagsJob'',
      job_version = None,
      lifetime = of_int drawn,
      expiry = None,
      refresh_timeout = 180,
      fetch_on_miss = True,
      empty_value = self_empty,
      fetch = (\<lambda>pk. Some (Inr (Some (Some (DocumentTagsJob_fetch taggings pk)))))\<rparr>"

subsection \<open>Callers whose calls overlap\<close>

text \<open>
  Modelled from the spec: the steps of a call of \<open>Job.get\<close> (the base class is
  missing from the source files). Section 5 makes the store the only shared resource and
  its lock acquisition the only point where callers are serialised, so a call is cut at
  its accesses to the store: the cache lookup, the lock attempt, and the fetch-and-store
  sequence of the caller that holds the lock. \<open>phase\<close> is where a caller stands:
  before its lookup, after a miss, holding the lock, or returned.
\<close>

datatype ('e, 'v) phase = Start | Missed | Holding | Done "'e + 'v"

text \<open>
  Modelled from the spec: the cache lookup of \<open>Job.get\<close>, step 2 of section 4.3
  (missing from the source files).
\<close>

definition Job_get_lookup ::
  "('a, 'e, 'v) JobPolicy \<Rightarrow> real \<Rightarrow> 'a \<Rightarrow> ('a, 'v) engine \<Rightarrow> 'v option \<times> ('a, 'v) engine" where
  "Job_get_lookup p now a st =
     (let s = evict now (store st) in (store_get s (job_key p a), st\<lparr>store := s\<rparr>))"

text \<open>
  Modelled from the spec: the lock attempt of \<open>Job.get\<close>, step 3a of section 4.3
  (missing from the source files); a lock that has expired by \<open>now\<close> counts as absent.
\<close>

definition Job_get_lock ::
  "('a, 'e, 'v) JobPolicy \<Rightarrow> real \<Rightarrow> 'a \<Rightarrow> ('a, 'v) engine \<Rightarrow> bool \<times> ('a, 'v) engine" where
  "Job_get_lock p now a st =
     (case try_acquire_lock (evict now (store st)) (job_key p a) (refresh_timeout p) now of
        (acquired, s1) \<Rightarrow> (acquired, st\<lparr>store := s1\<rparr>))"

text \<open>
  Modelled from the spec: one step of a caller of \<open>Job.get\<close> for the arguments
  \<open>a\<close> at the time \<open>now\<close> (section 4.3, missing from the source files). The result
  is \<open>None\<close> when the fetch callback does not return.
\<close>

definition caller_step ::
  "('a, 'e, 'v) JobPolicy \<Rightarrow> 'a \<Rightarrow> real \<Rightarrow> ('e, 'v) phase \<Rightarrow> ('a, 'v) engine \<Rightarrow>
   (('e, 'v) phase \<times> ('a, 'v) engine) option" where
  "caller_step p a now ph st =
     (case ph of
        Start \<Rightarrow>
          (case Job_get_lookup p now a st of
             (Some v, st0) \<Rightarrow> Some (Done (Inr v), st0)
           | (None, st0) \<Rightarrow>
               if fetch_on_miss p then Some (Missed, st0)
               else Some (Done (Inr (empty_value p)), st0\<lparr>scheduled := scheduled st0 @ [a]\<rparr>))
      | Missed \<Rightarrow>
          (case Job_get_lock p now a st of
             (True, st1) \<Rightarrow> Some (Holding, st1)
           | (False, st1) \<Rightarrow> Some (Done (Inr (empty_value p)), st1))
      | Holding \<Rightarrow>
          (case fetch_and_store p now a st of
             None \<Rightarrow> None
           | Some (r, st1) \<Rightarrow> Some (Done r, st1))
      | Done r \<Rightarrow> Some (Done r, st))"

text \<open>
  Modelled from the spec: the concurrent callers of section 5 (missing from the source
  files), as an interleaving. Every caller calls \<open>get\<close> with the arguments \<open>a\<close>; a
  schedule lists, in the order in which they happen, which caller takes its next step
  and at what time.
\<close>

fun run ::
  "('a, 'e, 'v) JobPolicy \<Rightarrow> 'a \<Rightarrow> (nat \<times> real) list \<Rightarrow>
   ('e, 'v) phase list \<times> ('a, 'v) engine \<Rightarrow> (('e, 'v) phase list \<times> ('a, 'v) engine) option" where
  "run p a [] c = Some c"
| "run p a ((i, now) # schedule) (phases, st) =
     (if i < length phases then
        (case caller_step p a now (phases ! i) st of
           None \<Rightarrow> None
         | Some (ph, st1) \<Rightarrow> run p a schedule (phases[i := ph], st1))
      else run p a schedule (phases, st))"




section \<open>Verified properties\<close>

subsection \<open>The paths of Job.get\<close>

lemma Job_get_hit:
  "entries (evict now (store st)) (job_key p a) = Some (v, e) \<Longrightarrow>
   Job_get p now a st = Some (Inr v, st\<lparr>store := evict now (store st)\<rparr>)"
  by (simp add: Job_get_def store_get_def Let_def)

lemma Job_get_lock_miss:
  "entries (evict now (store st)) (job_key p a) = None \<Longrightarrow> fetch_on_miss p \<Longrightarrow>
   locks (evict now (store st)) (job_key p a) = Some held \<Longrightarrow>
   Job_get p now a st = Some (Inr (empty_value p), st\<lparr>store := evict now (store st)\<rparr>)"
  by (simp add: Job_get_def store_get_def Let_def try_acquire_lock_def)

lemma Job_get_deferred_miss:
  "entries (evict now (store st)) (job_key p a) = None \<Longrightarrow> \<not> fetch_on_miss p \<Longrightarrow>
   Job_get p now a st =
     Some (Inr (empty_value p),
           st\<lparr>store := evict now (store st), scheduled := scheduled st @ [a]\<rparr>)"
  by (simp add: Job_get_def store_get_def Let_def)


lemma Job_get_fetches:
  "entries (evict now (store st)) (job_key p a) = None \<Longrightarrow> fetch_on_miss p \<Longrightarrow>
   locks (evict now (store st)) (job_key p a) = None \<Longrightarrow> fetch p a = Some (Inr (Some v)) \<Longrightarrow>
   \<exists>st'. Job_get p now a st = Some (Inr v, st') \<and> fetched st' = fetched st @ [a] \<and>
         entries (store st') (job_key p a) = Some (v, now + ttl p now)"
  by (simp add: Job_get_def store_get_def Let_def try_acquire_lock_def fetch_and_store_def
      store_set_def release_lock_def)

lemma run_deferred_stores:
  assumes q: "scheduled st1 = a # rest"
    and l: "locks (evict t1 (store st1)) (job_key p a) = None"
    and f: "fetch p a = Some (Inr (Some v))"
  shows "\<exists>st2. run_deferred p t1 st1 = Some st2 \<and> fetched st2 = fetched st1 @ [a] \<and>
           scheduled st2 = rest \<and>
           entries (store st2) (job_key p a) = Some (v, t1 + ttl p t1)"
  using assms
  by (simp add: run_deferred_def Let_def try_acquire_lock_def fetch_and_store_def
      store_set_def release_lock_def)

subsection \<open>The walk of DocumentNearestZoneJob.fetch\<close>

lemma fetch_loop_falsy:
  "\<not> truthy pk \<Longrightarrow> fetch_loop e db qs pk = Some (qs, Inr e)"
  by (subst fetch_loop.simps) simp

lemma fetch_loop_zone:
  "n \<noteq> 0 \<Longrightarrow> map_of (zones db) n = Some z \<Longrightarrow>
   fetch_loop e db qs (Some n) = Some (qs @ [ZoneGet n], Inr z)"
  by (subst fetch_loop.simps) simp

lemma fetch_loop_parent:
  "n \<noteq> 0 \<Longrightarrow> map_of (zones db) n = None \<Longrightarrow> map_of (documents db) n = Some p \<Longrightarrow>
   fetch_loop e db qs (Some n) = fetch_loop e db (qs @ [ZoneGet n, ParentTopicGet n]) p"
  by (subst fetch_loop.simps) (simp add: get_parent_id_def)

lemma fetch_loop_missing:
  "n \<noteq> 0 \<Longrightarrow> map_of (zones db) n = None \<Longrightarrow> map_of (documents db) n = None \<Longrightarrow>
   fetch_loop e db qs (Some n) = Some (qs @ [ZoneGet n, ParentTopicGet n], Inl DoesNotExist)"
  by (subst fetch_loop.simps) (simp add: get_parent_id_def)

lemma finite_parent_rel: "finite (parent_rel db)"
proof -
  have "parent_rel db \<subseteq> (\<lambda>(n, p). (n, the p)) ` set (documents db)"
    by (force simp: parent_rel_def dest!: map_of_SomeD)
  then show ?thesis by (rule finite_subset) simp
qed

lemma wf_reachable_parents:
  assumes "\<forall>q. (pk, q) \<in> (parent_rel db)\<^sup>* \<longrightarrow> (q, q) \<notin> (parent_rel db)\<^sup>+"
  shows "wf {(m, n). (pk, n) \<in> (parent_rel db)\<^sup>* \<and> (n, m) \<in> parent_rel db}"
    (is "wf ?R")
proof (rule finite_acyclic_wf)
  have sub: "?R \<subseteq> (parent_rel db)\<inverse>" by auto
  show "finite ?R"
    using sub by (rule finite_subset) (simp add: finite_parent_rel)
  show "acyclic ?R"
  proof (rule acyclicI, rule allI, rule notI)
    fix x assume xx: "(x, x) \<in> ?R\<^sup>+"
    then obtain z where "(z, x) \<in> ?R" by (auto dest: tranclD2)
    then have "(pk, x) \<in> (parent_rel db)\<^sup>*" by auto
    moreover from xx have "(x, x) \<in> ((parent_rel db)\<inverse>)\<^sup>+"
      using sub trancl_mono by blast
    then have "(x, x) \<in> (parent_rel db)\<^sup>+" by (simp add: trancl_converse)
    ultimately show False using assms by blast
  qed
qed

lemma fetch_loop_outcome:
  assumes acyc: "\<forall>q. (pk, q) \<in> (parent_rel db)\<^sup>* \<longrightarrow> (q, q) \<notin> (parent_rel db)\<^sup>+"
  shows "(pk, n) \<in> (parent_rel db)\<^sup>* \<Longrightarrow>
         \<exists>q qs' r. (n, q) \<in> (parent_rel db)\<^sup>* \<and> walk_end e db q r \<and>
                   fetch_loop e db qs (Some n) = Some (qs', r)"
proof (induction n arbitrary: qs rule: wf_induct_rule [OF wf_reachable_parents [OF acyc]])
  case (1 n)
  show ?case
  proof (cases "n = 0")
    case True
    then have "fetch_loop e db qs (Some n) = Some (qs, Inr e)"
      by (simp add: fetch_loop_falsy)
    with True show ?thesis unfolding walk_end_def by blast
  next
    case nz: False
    show ?thesis
    proof (cases "map_of (zones db) n")
      case (Some z)
      with nz have "fetch_loop e db qs (Some n) = Some (qs @ [ZoneGet n], Inr z)"
        by (rule fetch_loop_zone)
      with nz Some show ?thesis unfolding walk_end_def by blast
    next
      case zn: None
      show ?thesis
      proof (cases "map_of (documents db) n")
        case None
        with nz zn have "fetch_loop e db qs (Some n) =
            Some (qs @ [ZoneGet n, ParentTopicGet n], Inl DoesNotExist)"
          by (rule fetch_loop_missing)
        with nz zn None show ?thesis unfolding walk_end_def by blast
      next
        case (Some p)
        with nz zn have step: "fetch_loop e db qs (Some n) =
            fetch_loop e db (qs @ [ZoneGet n, ParentTopicGet n]) p"
          by (rule fetch_loop_parent)
        show ?thesis
        proof (cases p)
          case None
          with step have "fetch_loop e db qs (Some n) =
              Some (qs @ [ZoneGet n, ParentTopicGet n], Inr e)"
            by (simp add: fetch_loop_falsy)
          with nz zn Some None show ?thesis unfolding walk_end_def by blast
        next
          case (Some m)
          with \<open>map_of (documents db) n = Some p\<close> have link: "(n, m) \<in> parent_rel db"
            by (simp add: parent_rel_def)
          with "1.prems" have reach: "(pk, m) \<in> (parent_rel db)\<^sup>*" by simp
          from link "1.prems"
          have "(m, n) \<in> {(m, n). (pk, n) \<in> (parent_rel db)\<^sup>* \<and> (n, m) \<in> parent_rel db}"
            by simp
          from "1.IH" [OF this reach, of "qs @ [ZoneGet n, ParentTopicGet n]"]
          obtain q qs' r where "(m, q) \<in> (parent_rel db)\<^sup>*" "walk_end e db q r"
            "fetch_loop e db (qs @ [ZoneGet n, ParentTopicGet n]) (Some m) = Some (qs', r)"
            by blast
          with link step Some show ?thesis
            by (metis converse_rtrancl_into_rtrancl)
        qed
      qed
    qed
  qed
qed

lemma fetch_loop_chain:
  "topic_chain db n ms \<Longrightarrow>
   \<forall>k \<in> set (butlast (n # ms)). k \<noteq> 0 \<and> map_of (zones db) k = None \<Longrightarrow>
   fetch_loop e db qs (Some n) =
   fetch_loop e db (qs @ walk_queries (butlast (n # ms))) (Some (last (n # ms)))"
proof (induction ms arbitrary: n qs)
  case Nil
  then show ?case by (simp add: walk_queries_def)
next
  case (Cons m ms)
  from Cons.prems have n: "n \<noteq> 0" "map_of (zones db) n = None"
    "map_of (documents db) n = Some (Some m)" by simp_all
  from Cons.prems have ch: "topic_chain db m ms"
    and nz: "\<forall>k \<in> set (butlast (m # ms)). k \<noteq> 0 \<and> map_of (zones db) k = None"
    by simp_all
  have "fetch_loop e db qs (Some n) =
        fetch_loop e db (qs @ [ZoneGet n, ParentTopicGet n]) (Some m)"
    using n by (rule fetch_loop_parent)
  also have "\<dots> = fetch_loop e db ((qs @ [ZoneGet n, ParentTopicGet n]) @ walk_queries (butlast (m # ms)))
                   (Some (last (m # ms)))"
    using ch nz by (rule Cons.IH)
  finally show ?case by (simp add: walk_queries_def)
qed

lemma fetch_loop_self_parent:
  assumes "n \<noteq> 0" "map_of (zones db) n = None" "map_of (documents db) n = Some (Some n)"
  shows "fetch_loop e db qs (Some n) = None"
proof (rule ccontr)
  assume "fetch_loop e db qs (Some n) \<noteq> None"
  then obtain y where res: "fetch_loop e db qs (Some n) = Some y" by blast
  have "db = db \<longrightarrow> Some n \<noteq> Some n"
    apply (rule fetch_loop.raw_induct
        [where P = "\<lambda>e' db' qs' pk' y. db' = db \<longrightarrow> pk' \<noteq> Some n", OF _ res])
    subgoal premises prems for fl e' db' qs' pk' y
    proof (intro impI notI)
      assume "db' = db" "pk' = Some n"
      with prems(2) assms
      have "fl e' db (qs' @ [ZoneGet n, ParentTopicGet n]) (Some n) = Some y"
        by (simp add: get_parent_id_def)
      from prems(1) [OF this] show False by simp
    qed
    done
  then show False by simp
qed

text \<open>
  C10. Called with a falsy primary key (\<open>None\<close> or \<open>0\<close>),
  \<open>DocumentNearestZoneJob.fetch\<close> never enters the loop body: it returns the empty
  sentinel at once and has made no query, neither for a zone nor for a parent.
\<close>

theorem nearest_zone_fetch_falsy_pk:
  "DocumentNearestZoneJob_fetch e db None = Some ([], Inr e) \<and>
   DocumentNearestZoneJob_fetch e db (Some 0) = Some ([], Inr e)"
  by (simp add: DocumentNearestZoneJob_fetch_def fetch_loop_falsy)

text \<open>
  C3. \<open>DocumentNearestZoneJob.fetch(pk)\<close> walks the topic parents upward and returns
  the first zone it finds: when the documents before the last one of a chain have no zone
  and the last one has the zone \<open>z\<close>, the result is \<open>z\<close>, after one zone query and one
  parent query for each document passed. When no document of the chain has a zone and the
  last one has no parent, the result is the empty sentinel. In particular, for the chain
  \<open>a \<rightarrow> b \<rightarrow> c\<close> where only \<open>c\<close> has a zone, the fetch for \<open>a\<close> returns the zone
  of \<open>c\<close>, and so does \<open>get\<close> for \<open>a\<close> on a cold key whose lock is free. Primary
  keys of documents are not \<open>0\<close>.
\<close>

theorem nearest_zone_fetch_first_zone:
  "(topic_chain db n ms \<and> (\<forall>k \<in> set (butlast (n # ms)). k \<noteq> 0 \<and> map_of (zones db) k = None) \<and>
    last (n # ms) \<noteq> 0 \<and> map_of (zones db) (last (n # ms)) = Some z \<longrightarrow>
    DocumentNearestZoneJob_fetch e db (Some n) =
      Some (walk_queries (butlast (n # ms)) @ [ZoneGet (last (n # ms))], Inr z)) \<and>
   (topic_chain db n ms \<and> (\<forall>k \<in> set (n # ms). k \<noteq> 0 \<and> map_of (zones db) k = None) \<and>
    map_of (documents db) (last (n # ms)) = Some None \<longrightarrow>
    DocumentNearestZoneJob_fetch e db (Some n) = Some (walk_queries (n # ms), Inr e)) \<and>
   (a \<noteq> 0 \<and> b \<noteq> 0 \<and> c \<noteq> 0 \<and>
    map_of (documents db) a = Some (Some b) \<and> map_of (documents db) b = Some (Some c) \<and>
    map_of (zones db) a = None \<and> map_of (zones db) b = None \<and> map_of (zones db) c = Some z \<longrightarrow>
    DocumentNearestZoneJob_fetch e db (Some a) =
      Some ([ZoneGet a, ParentTopicGet a, ZoneGet b, ParentTopicGet b, ZoneGet c], Inr z)) \<and>
   (a \<noteq> 0 \<and> b \<noteq> 0 \<and> c \<noteq> 0 \<and>
    map_of (documents db) a = Some (Some b) \<and> map_of (documents db) b = Some (Some c) \<and>
    map_of (zones db) a = None \<and> map_of (zones db) b = None \<and> map_of (zones db) c = Some z \<and>
    store_get (evict now (store st)) (job_key (DocumentNearestZoneJob e lt drawn db) (Some a)) = None \<and>
    locks (evict now (store st)) (job_key (DocumentNearestZoneJob e lt drawn db) (Some a)) = None \<longrightarrow>
    (\<exists>st'. Job_get (DocumentNearestZoneJob e lt drawn db) now (Some a) st = Some (Inr z, st')))"
proof (intro conjI impI)
  assume h: "topic_chain db n ms \<and>
    (\<forall>k \<in> set (butlast (n # ms)). k \<noteq> 0 \<and> map_of (zones db) k = None) \<and>
    last (n # ms) \<noteq> 0 \<and> map_of (zones db) (last (n # ms)) = Some z"
  then have "fetch_loop e db [] (Some n) =
      fetch_loop e db ([] @ walk_queries (butlast (n # ms))) (Some (last (n # ms)))"
    by (intro fetch_loop_chain) simp_all
  also have "\<dots> =
      Some (([] @ walk_queries (butlast (n # ms))) @ [ZoneGet (last (n # ms))], Inr z)"
    using h by (intro fetch_loop_zone) simp_all
  finally show "DocumentNearestZoneJob_fetch e db (Some n) =
      Some (walk_queries (butlast (n # ms)) @ [ZoneGet (last (n # ms))], Inr z)"
    by (simp add: DocumentNearestZoneJob_fetch_def)
next
  assume h: "topic_chain db n ms \<and>
    (\<forall>k \<in> set (n # ms). k \<noteq> 0 \<and> map_of (zones db) k = None) \<and>
    map_of (documents db) (last (n # ms)) = Some None"
  then have bl: "\<forall>k \<in> set (butlast (n # ms)). k \<noteq> 0 \<and> map_of (zones db) k = None"
    by (meson in_set_butlastD)
  from h have la: "last (n # ms) \<noteq> 0" "map_of (zones db) (last (n # ms)) = None"
    by (metis last_in_set list.distinct(1))+
  have "fetch_loop e db [] (Some n) =
      fetch_loop e db ([] @ walk_queries (butlast (n # ms))) (Some (last (n # ms)))"
    using h bl by (intro fetch_loop_chain) simp_all
  also have "\<dots> = fetch_loop e db (([] @ walk_queries (butlast (n # ms))) @
       [ZoneGet (last (n # ms)), ParentTopicGet (last (n # ms))]) None"
    using la h by (intro fetch_loop_parent) simp_all
  also have "\<dots> = Some (([] @ walk_queries (butlast (n # ms))) @
       [ZoneGet (last (n # ms)), ParentTopicGet (last (n # ms))], Inr e)"
    by (rule fetch_loop_falsy) simp
  also have "([] @ walk_queries (butlast (n # ms))) @
       [ZoneGet (last (n # ms)), ParentTopicGet (last (n # ms))] =
       walk_queries (butlast (n # ms) @ [last (n # ms)])"
    unfolding walk_queries_def by simp
  finally show "DocumentNearestZoneJob_fetch e db (Some n) = Some (walk_queries (n # ms), Inr e)"
    by (simp add: DocumentNearestZoneJob_fetch_def del: butlast.simps last.simps)
next
  assume h: "a \<noteq> 0 \<and> b \<noteq> 0 \<and> c \<noteq> 0 \<and>
    map_of (documents db) a = Some (Some b) \<and> map_of (documents db) b = Some (Some c) \<and>
    map_of (zones db) a = None \<and> map_of (zones db) b = None \<and> map_of (zones db) c = Some z"
  then show "DocumentNearestZoneJob_fetch e db (Some a) =
      Some ([ZoneGet a, ParentTopicGet a, ZoneGet b, ParentTopicGet b, ZoneGet c], Inr z)"
    by (simp add: DocumentNearestZoneJob_fetch_def fetch_loop_parent fetch_loop_zone)
next
  let ?p = "DocumentNearestZoneJob e lt drawn db"
  assume h: "a \<noteq> 0 \<and> b \<noteq> 0 \<and> c \<noteq> 0 \<and>
    map_of (documents db) a = Some (Some b) \<and> map_of (documents db) b = Some (Some c) \<and>
    map_of (zones db) a = None \<and> map_of (zones db) b = None \<and> map_of (zones db) c = Some z \<and>
    store_get (evict now (store st)) (job_key ?p (Some a)) = None \<and>
    locks (evict now (store st)) (job_key ?p (Some a)) = None"
  then have "DocumentNearestZoneJob_fetch e db (Some a) =
      Some ([ZoneGet a, ParentTopicGet a, ZoneGet b, ParentTopicGet b, ZoneGet c], Inr z)"
    by (simp add: DocumentNearestZoneJob_fetch_def fetch_loop_parent fetch_loop_zone)
  then have "fetch ?p (Some a) = Some (Inr (Some z))"
    by (simp add: DocumentNearestZoneJob_def)
  moreover have "fetch_on_miss ?p" by (simp add: DocumentNearestZoneJob_def)
  moreover from h have "entries (evict now (store st)) (job_key ?p (Some a)) = None"
    "locks (evict now (store st)) (job_key ?p (Some a)) = None"
    by (simp_all add: store_get_def)
  ultimately show "\<exists>st'. Job_get ?p now (Some a) st = Some (Inr z, st')"
    using Job_get_fetches [of now st ?p "Some a" z] by blast
qed

theorem nearest_zone_fetch_first_zone_witness:
  "DocumentNearestZoneJob_fetch ''empty''
     \<lparr>documents = [(1, Some 2), (2, Some 3), (3, None)], zones = [(3, ''zone of C'')]\<rparr> (Some 1) =
     Some ([ZoneGet 1, ParentTopicGet 1, ZoneGet 2, ParentTopicGet 2, ZoneGet 3], Inr ''zone of C'') \<and>
   DocumentNearestZoneJob_fetch ''empty''
     \<lparr>documents = [(1, Some 2), (2, Some 3), (3, None)], zones = []\<rparr> (Some 1) =
     Some ([ZoneGet 1, ParentTopicGet 1, ZoneGet 2, ParentTopicGet 2, ZoneGet 3, ParentTopicGet 3],
           Inr ''empty'') \<and>
   (\<exists>st'. Job_get (DocumentNearestZoneJob ''empty'' 600 86400
              \<lparr>documents = [(1, Some 2), (2, Some 3), (3, None)], zones = [(3, ''zone of C'')]\<rparr>)
            0 (Some 1) cold_engine = Some (Inr ''zone of C'', st'))"
  using nearest_zone_fetch_first_zone
      [where db = "\<lparr>documents = [(1, Some 2), (2, Some 3), (3, None)], zones = [(3, ''zone of C'')]\<rparr>"
        and n = 1 and ms = "[2, 3]" and z = "''zone of C''" and e = "''empty''"
        and a = 1 and b = 2 and c = 3 and now = 0 and st = cold_engine and lt = 600
        and drawn = 86400]
    nearest_zone_fetch_first_zone
      [where db = "\<lparr>documents = [(1, Some 2), (2, Some 3), (3, None)], zones = []\<rparr>"
        and n = 1 and ms = "[2, 3]" and z = "''z''" and e = "''empty''"
        and a = 1 and b = 2 and c = 3 and now = 0 and st = cold_engine and lt = 600
        and drawn = 86400]
  by (simp add: walk_queries_def store_get_def evict_def cold_engine_def)

text \<open>
  C8. \<open>DocumentNearestZoneJob.fetch(pk)\<close> returns for every starting document whose
  chain of topic parents is acyclic (no document reachable from \<open>pk\<close> is its own
  ancestor). When moreover every key on the chain is the key of a document row and is not
  \<open>0\<close>, the walk ends at a document of the chain that has a zone, whose zone is the
  result, or at one that has no zone and no parent, and the result is the empty sentinel.
  The loop has no cycle protection: for a document without a zone that is its own topic
  parent, the fetch does not return.
\<close>

theorem nearest_zone_fetch_terminates:
  "((\<forall>q. (pk, q) \<in> (parent_rel db)\<^sup>* \<longrightarrow> (q, q) \<notin> (parent_rel db)\<^sup>+) \<longrightarrow>
      (\<exists>qs r. DocumentNearestZoneJob_fetch e db (Some pk) = Some (qs, r)) \<and>
      ((\<forall>q. (pk, q) \<in> (parent_rel db)\<^sup>* \<longrightarrow> q \<noteq> 0 \<and> map_of (documents db) q \<noteq> None) \<longrightarrow>
       (\<exists>q qs. (pk, q) \<in> (parent_rel db)\<^sup>* \<and>
          ((\<exists>z. map_of (zones db) q = Some z \<and>
                DocumentNearestZoneJob_fetch e db (Some pk) = Some (qs, Inr z)) \<or>
           (map_of (zones db) q = None \<and> map_of (documents db) q = Some None \<and>
                DocumentNearestZoneJob_fetch e db (Some pk) = Some (qs, Inr e)))))) \<and>
   (n \<noteq> 0 \<and> map_of (zones db) n = None \<and> map_of (documents db) n = Some (Some n) \<longrightarrow>
      DocumentNearestZoneJob_fetch e db (Some n) = None)"
proof (intro conjI impI)
  assume acyc: "\<forall>q. (pk, q) \<in> (parent_rel db)\<^sup>* \<longrightarrow> (q, q) \<notin> (parent_rel db)\<^sup>+"
  from fetch_loop_outcome [OF acyc rtrancl.rtrancl_refl, of e "[]"]
  show "\<exists>qs r. DocumentNearestZoneJob_fetch e db (Some pk) = Some (qs, r)"
    unfolding DocumentNearestZoneJob_fetch_def by blast
next
  assume acyc: "\<forall>q. (pk, q) \<in> (parent_rel db)\<^sup>* \<longrightarrow> (q, q) \<notin> (parent_rel db)\<^sup>+"
    and rows: "\<forall>q. (pk, q) \<in> (parent_rel db)\<^sup>* \<longrightarrow> q \<noteq> 0 \<and> map_of (documents db) q \<noteq> None"
  from fetch_loop_outcome [OF acyc rtrancl.rtrancl_refl, of e "[]"]
  obtain q qs r where q: "(pk, q) \<in> (parent_rel db)\<^sup>*" and w: "walk_end e db q r"
    and f: "DocumentNearestZoneJob_fetch e db (Some pk) = Some (qs, r)"
    unfolding DocumentNearestZoneJob_fetch_def by blast
  from rows q have "q \<noteq> 0" "map_of (documents db) q \<noteq> None" by blast+
  with w have "(\<exists>z. map_of (zones db) q = Some z \<and> r = Inr z) \<or>
      (map_of (zones db) q = None \<and> map_of (documents db) q = Some None \<and> r = Inr e)"
    unfolding walk_end_def by blast
  with q f show "\<exists>q qs. (pk, q) \<in> (parent_rel db)\<^sup>* \<and>
          ((\<exists>z. map_of (zones db) q = Some z \<and>
                DocumentNearestZoneJob_fetch e db (Some pk) = Some (qs, Inr z)) \<or>
           (map_of (zones db) q = None \<and> map_of (documents db) q = Some None \<and>
                DocumentNearestZoneJob_fetch e db (Some pk) = Some (qs, Inr e)))"
    by blast
next
  assume "n \<noteq> 0 \<and> map_of (zones db) n = None \<and> map_of (documents db) n = Some (Some n)"
  then show "DocumentNearestZoneJob_fetch e db (Some n) = None"
    by (simp add: DocumentNearestZoneJob_fetch_def fetch_loop_self_parent)
qed

theorem nearest_zone_fetch_terminates_witness:
  "(\<exists>qs r. DocumentNearestZoneJob_fetch ''empty''
       \<lparr>documents = [(1, Some 2), (2, Some 3), (3, None)], zones = [(3, ''zone of C'')]\<rparr> (Some 1) =
       Some (qs, Inr r)) \<and>
   DocumentNearestZoneJob_fetch ''empty'' \<lparr>documents = [(5, Some 5)], zones = []\<rparr> (Some 5) = None"
proof -
  let ?db = "\<lparr>documents = [(1, Some 2), (2, Some (3::int)), (3, None)],
               zones = [(3::int, ''zone of C'')]\<rparr>"
  let ?db5 = "\<lparr>documents = [(5::int, Some (5::int))], zones = [] :: (int \<times> string) list\<rparr>"
  have "parent_rel ?db \<subseteq> {(n, m). n < m}"
    by (auto simp: parent_rel_def split: if_splits)
  then have "(parent_rel ?db)\<^sup>+ \<subseteq> {(n, m). n < m}\<^sup>+" by (rule trancl_mono_subset)
  also have "\<dots> = {(n, m). n < m}" by (rule trancl_id) (auto simp: trans_def)
  finally have acyc: "\<forall>q. (1, q) \<in> (parent_rel ?db)\<^sup>* \<longrightarrow> (q, q) \<notin> (parent_rel ?db)\<^sup>+"
    by auto
  have reach: "q \<in> {1, 2, 3}" if "(1, q) \<in> (parent_rel ?db)\<^sup>*" for q
    using that by (induction rule: rtrancl_induct) (auto simp: parent_rel_def split: if_splits)
  have rows: "\<forall>q. (1, q) \<in> (parent_rel ?db)\<^sup>* \<longrightarrow> q \<noteq> 0 \<and> map_of (documents ?db) q \<noteq> None"
  proof (intro allI impI)
    fix q assume "(1, q) \<in> (parent_rel ?db)\<^sup>*"
    then have "q \<in> {1, 2, 3}" by (rule reach)
    then show "q \<noteq> 0 \<and> map_of (documents ?db) q \<noteq> None" by auto
  qed
  note run = nearest_zone_fetch_terminates [of 1 ?db "''empty''" 5]
  from run acyc rows
  have returns: "\<exists>qs r. DocumentNearestZoneJob_fetch ''empty'' ?db (Some 1) = Some (qs, Inr r)"
    by blast
  from nearest_zone_fetch_terminates [of 1 ?db5 "''empty''" 5]
  have "5 \<noteq> (0::int) \<and> map_of (zones ?db5) 5 = None \<and> map_of (documents ?db5) 5 = Some (Some 5) \<longrightarrow>
      DocumentNearestZoneJob_fetch ''empty'' ?db5 (Some 5) = None"
    by (rule conjunct2)
  then have loops: "DocumentNearestZoneJob_fetch ''empty'' ?db5 (Some 5) = None"
    by simp
  from returns loops show ?thesis by (intro conjI)
qed

subsection \<open>Jittered lifetimes\<close>

text \<open>
  C6. Every duration of the jittered policies lies between 1 day (86400 seconds) and 10
  days, whatever the random draw: every possible result of
  \<open>DocumentNearestZoneJob.expiry()\<close> is a timestamp between \<open>now\<close> plus 1 day and
  \<open>now\<close> plus 10 days, and every possible value of \<open>DocumentTagsJob.lifetime\<close> is
  between 1 day and 10 days. Both bounds are possible results.
\<close>

theorem jittered_durations_in_range:
  "(\<forall>t \<in> DocumentNearestZoneJob_expiry now. now + 1 * 86400 \<le> t \<and> t \<le> now + 10 * 86400) \<and>
   (\<forall>l \<in> DocumentTagsJob_lifetime. 1 * 86400 \<le> l \<and> l \<le> 10 * 86400) \<and>
   now + 1 * 86400 \<in> DocumentNearestZoneJob_expiry now \<and>
   now + 10 * 86400 \<in> DocumentNearestZoneJob_expiry now \<and>
   1 * 86400 \<in> DocumentTagsJob_lifetime \<and> 10 * 86400 \<in> DocumentTagsJob_lifetime"
proof (intro conjI ballI)
  fix t assume "t \<in> DocumentNearestZoneJob_expiry now"
  then obtain n :: int where "t = now + of_int n" "86400 \<le> n" "n \<le> 864000"
    unfolding DocumentNearestZoneJob_expiry_def randint_def seconds_per_day_def
    by auto
  then show "now + 1 * 86400 \<le> t" "t \<le> now + 10 * 86400" by simp_all
next
  fix l assume "l \<in> DocumentTagsJob_lifetime"
  then show "1 * 86400 \<le> l" "l \<le> 10 * 86400"
    by (simp_all add: DocumentTagsJob_lifetime_def randint_def seconds_per_day_def)
next
  have "now + of_int 86400 \<in> DocumentNearestZoneJob_expiry now"
    unfolding DocumentNearestZoneJob_expiry_def randint_def seconds_per_day_def
    by (rule imageI) simp
  then show "now + 1 * 86400 \<in> DocumentNearestZoneJob_expiry now" by simp
  have "now + of_int 864000 \<in> DocumentNearestZoneJob_expiry now"
    unfolding DocumentNearestZoneJob_expiry_def randint_def seconds_per_day_def
    by (rule imageI) simp
  then show "now + 10 * 86400 \<in> DocumentNearestZoneJob_expiry now" by simp
  show "1 * 86400 \<in> DocumentTagsJob_lifetime" "10 * 86400 \<in> DocumentTagsJob_lifetime"
    by (simp_all add: DocumentTagsJob_lifetime_def randint_def seconds_per_day_def)
qed


theorem jittered_durations_in_range_witness:
  "1000 + 10 * 86400 \<in> DocumentNearestZoneJob_expiry 1000 \<and>
   1000 + 1 * 86400 \<le> (1000 + 10 * 86400 :: real) \<and>
   10 * 86400 \<in> DocumentTagsJob_lifetime \<and> 1 * 86400 \<le> (10 * 86400 :: int)"
proof -
  note b = jittered_durations_in_range [of 1000]
  have m: "1000 + 10 * 86400 \<in> DocumentNearestZoneJob_expiry 1000"
    by (rule b [THEN conjunct2, THEN conjunct2, THEN conjunct2, THEN conjunct1])
  have l: "10 * 86400 \<in> DocumentTagsJob_lifetime"
    by (rule b [THEN conjunct2, THEN conjunct2, THEN conjunct2, THEN conjunct2, THEN conjunct2])
  have "1000 + 1 * 86400 \<le> (1000 + 10 * 86400 :: real)"
    using bspec [OF b [THEN conjunct1] m] by (rule conjunct1)
  moreover have "1 * 86400 \<le> (10 * 86400 :: int)"
    using bspec [OF b [THEN conjunct2, THEN conjunct1] l] by (rule conjunct1)
  ultimately show ?thesis using m l by (intro conjI)
qed

subsection \<open>DocumentContributorsJob.fetch\<close>

lemma sorted_key_unique:
  fixes f :: "'a \<Rightarrow> 'k::linorder"
  assumes "sorted (map f xs)" "distinct (map f xs)" "sorted (map f ys)" "distinct (map f ys)"
    and "set xs = set ys"
  shows "xs = ys"
proof -
  have "set (map f xs) = set (map f ys)" using assms(5) by simp
  with assms(1-4) have "map f xs = map f ys" by (intro sorted_distinct_set_unique)
  moreover have "inj_on f (set xs \<union> set ys)"
    using assms(2,5) by (simp add: distinct_map)
  ultimately show ?thesis by (simp add: inj_on_map_eq_map)
qed

lemma user_by_id:
  fixes us :: "user list"
  shows "distinct (map user_id us) \<Longrightarrow> u \<in> set us \<Longrightarrow> v \<in> set us \<Longrightarrow> user_id u = user_id v \<Longrightarrow> u = v"
  by (auto simp: distinct_map dest: inj_onD)


lemma sort_key_eqI:
  fixes k :: "'a \<Rightarrow> 'k::linorder"
  assumes "distinct (map k xs)" "set xs = set ys" "sorted (map k ys)" "distinct ys"
  shows "sort_key k xs = ys"
proof (rule sorted_key_unique [where f = k])
  have "card (set (map k (sort_key k xs))) = card (set (map k xs))" by simp
  also have "\<dots> = length (map k xs)" using assms(1) by (rule distinct_card)
  also have "\<dots> = length (map k (sort_key k xs))" by simp
  finally show "distinct (map k (sort_key k xs))" by (rule card_distinct)
  show "sorted (map k (sort_key k xs))" by (rule sorted_sort_key)
  show "sorted (map k ys)" by (rule assms(3))
  from assms(1) have "inj_on k (set xs)" by (simp add: distinct_map)
  with assms(2,4) show "distinct (map k ys)" by (simp add: distinct_map)
  show "set (sort_key k xs) = set ys" using assms(2) by simp
qed

lemma scenario_order_active:
  fixes us :: "user list"
  assumes d: "distinct (map user_id us)"
    and u: "u7 \<in> set us" "user_id u7 = 7" "u3 \<in> set us" "user_id u3 = 3"
       "u9 \<in> set us" "user_id u9 = 9"
  shows "sort_key (\<lambda>u. FIELD (user_id u) [7, 3, 7, 9])
           (filter (\<lambda>u. user_id u \<in> set [7, 3, 7, 9] \<and> is_active u) us) =
         filter is_active [u7, u3, u9]"
proof -
  define k where "k = (\<lambda>u::user. FIELD (user_id u) [7, 3, 7, 9])"
  define fs where "fs = filter (\<lambda>u::user. user_id u \<in> set [7, 3, 7, 9] \<and> is_active u) us"
  have id: "x \<in> set us \<and> user_id x \<in> {7, 3, 9} \<longleftrightarrow> x \<in> {u7, u3, u9}" for x
    using u user_by_id [OF d, of x u7] user_by_id [OF d, of x u3] user_by_id [OF d, of x u9]
    by auto
  have "set fs = {x. (x \<in> set us \<and> user_id x \<in> {7, 3, 9}) \<and> is_active x}"
    by (auto simp: fs_def)
  also have "\<dots> = {x. x \<in> {u7, u3, u9} \<and> is_active x}"
    by (simp only: id)
  also have "\<dots> = set (filter is_active [u7, u3, u9])" by auto
  finally have set_fs: "set fs = set (filter is_active [u7, u3, u9])" .
  have k: "k u7 = 1" "k u3 = 2" "k u9 = 4" using u by (simp_all add: k_def)
  have ne: "u7 \<noteq> u3" "u7 \<noteq> u9" "u3 \<noteq> u9" using u by auto
  have "distinct fs" unfolding fs_def using d by (simp add: distinct_map)
  moreover have "inj_on k {u7, u3, u9}" using k by (auto simp: inj_on_def)
  then have "inj_on k (set fs)"
    by (rule inj_on_subset) (use set_fs in auto)
  ultimately have "distinct (map k fs)" by (simp add: distinct_map)
  moreover note set_fs
  moreover have "sorted (map k (filter is_active [u7, u3, u9]))" using k by simp
  moreover have "distinct (filter is_active [u7, u3, u9])" using ne by simp
  ultimately have "sort_key k fs = filter is_active [u7, u3, u9]" by (rule sort_key_eqI)
  then show ?thesis unfolding k_def fs_def .
qed

text \<open>
  C4, as the claim states it, fails where a creator is not an active user: with the
  revisions of creators 7, 3, 7, 9 (newest first) and an inactive user 3, the fetch
  returns the records of 7 and 9 only.
\<close>

theorem contributors_fetch_inactive_creator:
  "recent_creator_ids (example_tables False) 1 = [7, 3, 7, 9] \<and>
   DocumentContributorsJob_fetch example_gravatar_url (example_tables False) 1 =
     Inr [\<lparr>contributor_id = 7, contributor_username = ''alice'',
           contributor_email = ''alice@example.com'',
           gravatar_34 = ''gravatar/alice@example.com''\<rparr>,
          \<lparr>contributor_id = 9, contributor_username = ''bob'',
           contributor_email = ''bob@example.com'',
           gravatar_34 = ''gravatar/bob@example.com''\<rparr>]"
  by (simp add: DocumentContributorsJob_fetch_def recent_creator_ids_def example_tables_def
      example_revisions_def example_user_def example_gravatar_url_def contributor_row_def)

text \<open>
  C4, amended. For a document whose revisions, ordered by descending creation time, have
  the creator ids \<open>[7, 3, 7, 9]\<close>, \<open>DocumentContributorsJob.fetch\<close> returns the
  records of those of the creators 7, 3 and 9 that are active users, in first-occurrence
  order, each with the derived \<open>gravatar_34\<close> field: \<open>[7, 3, 9]\<close> when the three
  are active, and a creator who is not an active user is left out. For a document with no
  revisions the result is the empty list. User ids are unique (the primary key), and
  \<open>u7\<close>, \<open>u3\<close>, \<open>u9\<close> are the user rows of the three creators.
\<close>

theorem contributors_fetch_scenario:
  "(distinct (map user_id (users db)) \<and> pk \<in> set (live_documents db) \<and>
    recent_creator_ids db pk = [7, 3, 7, 9] \<and>
    u7 \<in> set (users db) \<and> user_id u7 = 7 \<and>
    u3 \<in> set (users db) \<and> user_id u3 = 3 \<and>
    u9 \<in> set (users db) \<and> user_id u9 = 9 \<longrightarrow>
    DocumentContributorsJob_fetch g db pk =
      Inr (map (contributor_row g) (filter is_active [u7, u3, u9])) \<and>
    (is_active u7 \<and> is_active u3 \<and> is_active u9 \<longrightarrow>
       DocumentContributorsJob_fetch g db pk =
         Inr [contributor_row g u7, contributor_row g u3, contributor_row g u9])) \<and>
   (pk \<in> set (live_documents db) \<and> recent_creator_ids db pk = [] \<longrightarrow>
    DocumentContributorsJob_fetch g db pk = Inr [])"
proof (intro conjI impI)
  assume h: "distinct (map user_id (users db)) \<and> pk \<in> set (live_documents db) \<and>
    recent_creator_ids db pk = [7, 3, 7, 9] \<and>
    u7 \<in> set (users db) \<and> user_id u7 = 7 \<and>
    u3 \<in> set (users db) \<and> user_id u3 = 3 \<and>
    u9 \<in> set (users db) \<and> user_id u9 = 9"
  then have "sort_key (\<lambda>u. FIELD (user_id u) [7, 3, 7, 9])
           (filter (\<lambda>u. user_id u \<in> set [7, 3, 7, 9] \<and> is_active u) (users db)) =
         filter is_active [u7, u3, u9]"
    by (intro scenario_order_active) simp_all
  with h show general: "DocumentContributorsJob_fetch g db pk =
      Inr (map (contributor_row g) (filter is_active [u7, u3, u9]))"
    unfolding DocumentContributorsJob_fetch_def Let_def by simp
  assume "is_active u7 \<and> is_active u3 \<and> is_active u9"
  with general show "DocumentContributorsJob_fetch g db pk =
         Inr [contributor_row g u7, contributor_row g u3, contributor_row g u9]"
    by simp
next
  assume "pk \<in> set (live_documents db) \<and> recent_creator_ids db pk = []"
  then show "DocumentContributorsJob_fetch g db pk = Inr []"
    by (simp add: DocumentContributorsJob_fetch_def DocumentContributorsJob_empty_def)
qed

theorem contributors_fetch_scenario_witness:
  "DocumentContributorsJob_fetch example_gravatar_url (example_tables True) 1 =
     Inr [\<lparr>contributor_id = 7, contributor_username = ''alice'',
           contributor_email = ''alice@example.com'',
           gravatar_34 = ''gravatar/alice@example.com''\<rparr>,
          \<lparr>contributor_id = 3, contributor_username = ''carol'',
           contributor_email = ''carol@example.com'',
           gravatar_34 = ''gravatar/carol@example.com''\<rparr>,
          \<lparr>contributor_id = 9, contributor_username = ''bob'',
           contributor_email = ''bob@example.com'',
           gravatar_34 = ''gravatar/bob@example.com''\<rparr>] \<and>
   DocumentContributorsJob_fetch example_gravatar_url (example_tables False) 1 =
     Inr [\<lparr>contributor_id = 7, contributor_username = ''alice'',
           contributor_email = ''alice@example.com'',
           gravatar_34 = ''gravatar/alice@example.com''\<rparr>,
          \<lparr>contributor_id = 9, contributor_username = ''bob'',
           contributor_email = ''bob@example.com'',
           gravatar_34 = ''gravatar/bob@example.com''\<rparr>] \<and>
   DocumentContributorsJob_fetch example_gravatar_url (example_tables True) 2 = Inr []"
  using contributors_fetch_scenario [of "example_tables True" 1 "example_user 7 ''alice'' True"
        "example_user 3 ''carol'' True" "example_user 9 ''bob'' True" example_gravatar_url]
    contributors_fetch_scenario [of "example_tables False" 1 "example_user 7 ''alice'' True"
        "example_user 3 ''carol'' False" "example_user 9 ''bob'' True" example_gravatar_url]
    contributors_fetch_scenario [of "example_tables True" 2 "example_user 7 ''alice'' True"
        "example_user 3 ''carol'' True" "example_user 9 ''bob'' True" example_gravatar_url]
  by (simp add: recent_creator_ids_def example_tables_def example_revisions_def
      example_user_def example_gravatar_url_def contributor_row_def)

text \<open>
  C9. Every record \<open>DocumentContributorsJob.fetch\<close> returns is the record of an
  active user who created a revision of the document; a creator whose account is inactive
  is left out, although the id is in the list of recent creators.
\<close>

theorem contributors_fetch_only_active:
  "DocumentContributorsJob_fetch g db pk = Inr cs \<longrightarrow>
     (\<forall>c \<in> set cs. \<exists>u \<in> set (users db).
         is_active u \<and> user_id u \<in> set (recent_creator_ids db pk) \<and> c = contributor_row g u) \<and>
     (distinct (map user_id (users db)) \<longrightarrow>
        (\<forall>u \<in> set (users db). \<not> is_active u \<longrightarrow> user_id u \<notin> contributor_id ` set cs))"
proof (intro impI conjI ballI)
  assume f: "DocumentContributorsJob_fetch g db pk = Inr cs"
  define ids where "ids = recent_creator_ids db pk"
  define fs where "fs = filter (\<lambda>u. user_id u \<in> set ids \<and> is_active u) (users db)"
  have cs: "set cs \<subseteq> contributor_row g ` set fs"
    using f unfolding DocumentContributorsJob_fetch_def Let_def ids_def fs_def
    by (auto simp: DocumentContributorsJob_empty_def split: if_splits)
  {
    fix c assume "c \<in> set cs"
    with cs obtain u where "u \<in> set fs" "c = contributor_row g u" by blast
    then show "\<exists>u \<in> set (users db).
         is_active u \<and> user_id u \<in> set (recent_creator_ids db pk) \<and> c = contributor_row g u"
      unfolding fs_def ids_def by auto
  }
  {
    fix u assume d: "distinct (map user_id (users db))" and u: "u \<in> set (users db)"
      and na: "\<not> is_active u"
    show "user_id u \<notin> contributor_id ` set cs"
    proof
      assume "user_id u \<in> contributor_id ` set cs"
      then obtain c where "c \<in> set cs" "contributor_id c = user_id u" by auto
      with cs obtain v where v: "v \<in> set fs" "user_id v = user_id u"
        by (auto simp: contributor_row_def)
      then have "v \<in> set (users db)" "is_active v" by (simp_all add: fs_def)
      with d u v(2) have "v = u" by (intro user_by_id [of "users db"]) simp_all
      with na \<open>is_active v\<close> show False by simp
    qed
  }
qed

theorem contributors_fetch_only_active_witness:
  "DocumentContributorsJob_fetch example_gravatar_url (example_tables False) 1 =
     Inr [contributor_row example_gravatar_url (example_user 7 ''alice'' True),
          contributor_row example_gravatar_url (example_user 9 ''bob'' True)] \<and>
   3 \<in> set (recent_creator_ids (example_tables False) 1) \<and>
   3 \<notin> contributor_id ` set [contributor_row example_gravatar_url (example_user 7 ''alice'' True),
          contributor_row example_gravatar_url (example_user 9 ''bob'' True)]"
proof -
  let ?cs = "[contributor_row example_gravatar_url (example_user 7 ''alice'' True),
          contributor_row example_gravatar_url (example_user 9 ''bob'' True)]"
  have f: "DocumentContributorsJob_fetch example_gravatar_url (example_tables False) 1 = Inr ?cs"
    by (simp add: DocumentContributorsJob_fetch_def recent_creator_ids_def example_tables_def
        example_revisions_def example_user_def)
  have d: "distinct (map user_id (users (example_tables False)))"
    by (simp add: example_tables_def example_user_def)
  have u: "example_user 3 ''carol'' False \<in> set (users (example_tables False))"
    by (simp add: example_tables_def)
  have na: "\<not> is_active (example_user 3 ''carol'' False)"
    by (simp add: example_user_def)
  from contributors_fetch_only_active [of example_gravatar_url "example_tables False" 1 ?cs] f d u na
  have "user_id (example_user 3 ''carol'' False) \<notin> contributor_id ` set ?cs"
    by blast
  then have "3 \<notin> contributor_id ` set ?cs" by (simp add: example_user_def)
  moreover have "3 \<in> set (recent_creator_ids (example_tables False) 1)"
    by (simp add: recent_creator_ids_def example_tables_def example_revisions_def)
  ultimately show ?thesis using f by (intro conjI)
qed

subsection \<open>Job.get\<close>




text \<open>
  C5, as the claim states it, fails in maintenance mode: \<open>DocumentContributorsJob.get\<close>
  returns the empty list on a cold key and leaves the engine as it was, with no deferred
  refresh scheduled, although the fetch for the document would give a non-empty list.
\<close>

theorem contributors_get_maintenance_mode:
  "DocumentContributorsJob_get True example_gravatar_url (example_tables True) 0 1 cold_engine =
     Some (Inr [], cold_engine) \<and>
   scheduled (cold_engine :: (int, contributor list) engine) = [] \<and>
   DocumentContributorsJob_fetch example_gravatar_url (example_tables True) 1 \<noteq> Inr []"
  by (simp add: DocumentContributorsJob_get_def DocumentContributorsJob_empty_def cold_engine_def
      DocumentContributorsJob_fetch_def recent_creator_ids_def example_tables_def
      example_revisions_def example_user_def)

text \<open>
  C5, amended. \<open>DocumentContributorsJob\<close> declares \<open>fetch_on_miss = False\<close>. When
  \<open>MAINTENANCE_MODE\<close> is off, \<open>get\<close> on a cold key returns the empty list at once
  without invoking \<open>fetch\<close> (the log of fetch calls is unchanged) and schedules a
  deferred refresh; once the deferred task has run (the lock was free and \<open>fetch\<close>
  returned \<open>cs\<close>), a \<open>get\<close> within the lifetime of 12 hours returns \<open>cs\<close>
  without another fetch. When \<open>MAINTENANCE_MODE\<close> is on, \<open>get\<close> returns the empty
  list and schedules nothing.
\<close>

theorem contributors_get_deferred:
  "(store_get (evict t0 (store st)) (job_key (DocumentContributorsJob g db) pk) = None \<longrightarrow>
      DocumentContributorsJob_get False g db t0 pk st =
        Some (Inr [], st\<lparr>store := evict t0 (store st), scheduled := scheduled st @ [pk]\<rparr>)) \<and>
   (scheduled st1 = pk # rest \<and>
    locks (evict t1 (store st1)) (job_key (DocumentContributorsJob g db) pk) = None \<and>
    DocumentContributorsJob_fetch g db pk = Inr cs \<and> t2 < t1 + 60 * 60 * 12 \<longrightarrow>
      (\<exists>st2 st3. run_deferred (DocumentContributorsJob g db) t1 st1 = Some st2 \<and>
         fetched st2 = fetched st1 @ [pk] \<and> scheduled st2 = rest \<and>
         DocumentContributorsJob_get False g db t2 pk st2 = Some (Inr cs, st3) \<and>
         fetched st3 = fetched st2)) \<and>
   DocumentContributorsJob_get True g db t0 pk st = Some (Inr [], st)"
proof (intro conjI impI)
  let ?p = "DocumentContributorsJob g db"
  assume "store_get (evict t0 (store st)) (job_key ?p pk) = None"
  then have "entries (evict t0 (store st)) (job_key ?p pk) = None"
    by (simp add: store_get_def)
  moreover have "\<not> fetch_on_miss ?p" by (simp add: DocumentContributorsJob_def)
  ultimately have "Job_get ?p t0 pk st =
      Some (Inr (empty_value ?p), st\<lparr>store := evict t0 (store st), scheduled := scheduled st @ [pk]\<rparr>)"
    by (rule Job_get_deferred_miss)
  then show "DocumentContributorsJob_get False g db t0 pk st =
        Some (Inr [], st\<lparr>store := evict t0 (store st), scheduled := scheduled st @ [pk]\<rparr>)"
    by (simp add: DocumentContributorsJob_get_def DocumentContributorsJob_def
        DocumentContributorsJob_empty_def)
next
  let ?p = "DocumentContributorsJob g db"
  assume h: "scheduled st1 = pk # rest \<and>
    locks (evict t1 (store st1)) (job_key ?p pk) = None \<and>
    DocumentContributorsJob_fetch g db pk = Inr cs \<and> t2 < t1 + 60 * 60 * 12"
  then have "fetch ?p pk = Some (Inr (Some cs))" by (simp add: DocumentContributorsJob_def)
  with h obtain st2 where run: "run_deferred ?p t1 st1 = Some st2"
    and st2: "fetched st2 = fetched st1 @ [pk]" "scheduled st2 = rest"
    and e: "entries (store st2) (job_key ?p pk) = Some (cs, t1 + ttl ?p t1)"
    using run_deferred_stores [of st1 pk rest t1 ?p cs] by blast
  have "ttl ?p t1 = 60 * 60 * 12" by (simp add: ttl_def DocumentContributorsJob_def)
  with e h have "entries (evict t2 (store st2)) (job_key ?p pk) = Some (cs, t1 + ttl ?p t1)"
    by (simp add: evict_def)
  then have "Job_get ?p t2 pk st2 = Some (Inr cs, st2\<lparr>store := evict t2 (store st2)\<rparr>)"
    by (rule Job_get_hit)
  then have "DocumentContributorsJob_get False g db t2 pk st2 =
      Some (Inr cs, st2\<lparr>store := evict t2 (store st2)\<rparr>)"
    by (simp add: DocumentContributorsJob_get_def)
  with run st2 show "\<exists>st2 st3. run_deferred ?p t1 st1 = Some st2 \<and>
         fetched st2 = fetched st1 @ [pk] \<and> scheduled st2 = rest \<and>
         DocumentContributorsJob_get False g db t2 pk st2 = Some (Inr cs, st3) \<and>
         fetched st3 = fetched st2"
    by simp
next
  show "DocumentContributorsJob_get True g db t0 pk st = Some (Inr [], st)"
    by (simp add: DocumentContributorsJob_get_def DocumentContributorsJob_empty_def)
qed

theorem contributors_get_deferred_witness:
  "\<exists>st1 st2 st3.
     DocumentContributorsJob_get False example_gravatar_url (example_tables True) 0 1 cold_engine =
       Some (Inr [], st1) \<and>
     fetched st1 = [] \<and> scheduled st1 = [1] \<and>
     run_deferred (DocumentContributorsJob example_gravatar_url (example_tables True)) 10 st1 =
       Some st2 \<and>
     DocumentContributorsJob_get False example_gravatar_url (example_tables True) 20 1 st2 =
       Some (Inr [contributor_row example_gravatar_url (example_user 7 ''alice'' True),
                  contributor_row example_gravatar_url (example_user 3 ''carol'' True),
                  contributor_row example_gravatar_url (example_user 9 ''bob'' True)], st3) \<and>
     fetched st3 = [1]"
proof -
  let ?g = example_gravatar_url
  let ?db = "example_tables True"
  let ?p = "DocumentContributorsJob ?g ?db"
  let ?cs = "[contributor_row ?g (example_user 7 ''alice'' True),
              contributor_row ?g (example_user 3 ''carol'' True),
              contributor_row ?g (example_user 9 ''bob'' True)]"
  let ?c = "cold_engine :: (int, contributor list) engine"
  let ?st1 = "?c\<lparr>store := evict 0 (store ?c), scheduled := scheduled ?c @ [1]\<rparr>"
  note c5 = contributors_get_deferred [of 0 ?c ?g ?db 1 ?st1 "[]" 10 ?cs 20]
  have cold: "store_get (evict 0 (store (cold_engine :: (int, contributor list) engine)))
      (job_key ?p 1) = None"
    by (simp add: store_get_def evict_def cold_engine_def)
  have q: "scheduled ?st1 = [1]" by (simp add: cold_engine_def)
  have l: "locks (evict 10 (store ?st1)) (job_key ?p 1) = None"
    by (simp add: evict_def cold_engine_def)
  have f: "DocumentContributorsJob_fetch ?g ?db 1 = Inr ?cs"
    by (simp add: DocumentContributorsJob_fetch_def recent_creator_ids_def example_tables_def
        example_revisions_def example_user_def)
  from c5 cold have first: "DocumentContributorsJob_get False ?g ?db 0 1 cold_engine =
      Some (Inr [], ?st1)" by blast
  from c5 q l f obtain st2 st3 where "run_deferred ?p 10 ?st1 = Some st2"
    "fetched st2 = fetched ?st1 @ [1]"
    "DocumentContributorsJob_get False ?g ?db 20 1 st2 = Some (Inr ?cs, st3)"
    "fetched st3 = fetched st2"
    by auto
  moreover have "fetched ?st1 = []" by (simp add: cold_engine_def)
  ultimately show ?thesis using first q by auto
qed

text \<open>
  C7, as the claim states it, fails for the jobs that define no \<open>empty()\<close>:
  \<open>DocumentNearestZoneJob\<close> and \<open>DocumentTagsJob\<close> use the sentinel they inherit
  from the base class, and where that is nil (\<open>None\<close>), nil is what \<open>get\<close> returns
  on a lock miss.
\<close>

theorem inherited_sentinel_nil:
  "map_option fst
     (Job_get (DocumentNearestZoneJob None 600 86400 \<lparr>documents = [(1, None)], zones = []\<rparr>)
        10 (Some 1)
        (locked_engine
           (job_key (DocumentNearestZoneJob None 600 86400 \<lparr>documents = [(1, None)], zones = []\<rparr>)
              (Some 1)) 0 180)) = Some (Inr (None :: string option)) \<and>
   map_option fst
     (Job_get (DocumentTagsJob None 86400 [(1, ''css'')]) 10 1
        (locked_engine (job_key (DocumentTagsJob None 86400 [(1, ''css'')]) 1) 0 180)) =
     Some (Inr None)"
  by (simp add: Job_get_def Let_def store_get_def evict_def locked_engine_def
      try_acquire_lock_def DocumentNearestZoneJob_def DocumentTagsJob_def job_key_def)

text \<open>
  C7, amended. Each concrete job that defines \<open>empty()\<close> has a typed empty container
  as its sentinel, never nil: \<open>DocumentZoneURLRemapsJob.empty()\<close> and
  \<open>DocumentContributorsJob.empty()\<close> return the empty list and
  \<open>DocumentCodeSampleJob.empty()\<close> returns the empty mapping, and these are the
  values \<open>get\<close> returns for these jobs on a lock miss (a cold key whose lock is held,
  under \<open>fetch_on_miss = True\<close>) and on a deferred miss (a cold key under
  \<open>fetch_on_miss = False\<close>). \<open>DocumentNearestZoneJob\<close> and \<open>DocumentTagsJob\<close>
  define no \<open>empty()\<close>: on a lock miss \<open>get\<close> returns the sentinel they inherit
  from the base class as it is, which the source does not make a container.
\<close>

theorem empty_sentinels_typed:
  "DocumentZoneURLRemapsJob_empty = [] \<and> DocumentContributorsJob_empty = [] \<and>
   DocumentCodeSampleJob_empty = Map.empty \<and>
   (store_get (evict now (store st)) (job_key (DocumentZoneURLRemapsJob zone_rows) loc) = None \<and>
    locks (evict now (store st)) (job_key (DocumentZoneURLRemapsJob zone_rows) loc) = Some held \<longrightarrow>
      Job_get (DocumentZoneURLRemapsJob zone_rows) now loc st =
        Some (Inr [], st\<lparr>store := evict now (store st)\<rparr>)) \<and>
   (store_get (evict now (store st)) (job_key (DocumentZoneURLRemapsJob zone_rows) loc) = None \<longrightarrow>
      Job_get ((DocumentZoneURLRemapsJob zone_rows)\<lparr>fetch_on_miss := False\<rparr>) now loc st =
        Some (Inr [], st\<lparr>store := evict now (store st), scheduled := scheduled st @ [loc]\<rparr>)) \<and>
   (store_get (evict now (store st')) (job_key (DocumentCodeSampleJob code_sample) sample) = None \<and>
    locks (evict now (store st')) (job_key (DocumentCodeSampleJob code_sample) sample) = Some held \<longrightarrow>
      Job_get (DocumentCodeSampleJob code_sample) now sample st' =
        Some (Inr Map.empty, st'\<lparr>store := evict now (store st')\<rparr>)) \<and>
   (store_get (evict now (store st')) (job_key (DocumentCodeSampleJob code_sample) sample) = None \<longrightarrow>
      Job_get ((DocumentCodeSampleJob code_sample)\<lparr>fetch_on_miss := False\<rparr>) now sample st' =
        Some (Inr Map.empty, st'\<lparr>store := evict now (store st'), scheduled := scheduled st' @ [sample]\<rparr>)) \<and>
   (store_get (evict now (store stc)) (job_key (DocumentContributorsJob g db) pk) = None \<longrightarrow>
      Job_get (DocumentContributorsJob g db) now pk stc =
        Some (Inr [], stc\<lparr>store := evict now (store stc), scheduled := scheduled stc @ [pk]\<rparr>)) \<and>
   (store_get (evict now (store stc)) (job_key (DocumentContributorsJob g db) pk) = None \<and>
    locks (evict now (store stc)) (job_key (DocumentContributorsJob g db) pk) = Some held \<longrightarrow>
      Job_get ((DocumentContributorsJob g db)\<lparr>fetch_on_miss := True\<rparr>) now pk stc =
        Some (Inr [], stc\<lparr>store := evict now (store stc)\<rparr>)) \<and>
   (store_get (evict now (store stz)) (job_key (DocumentNearestZoneJob inherited lt drawn zdb) zpk) = None \<and>
    locks (evict now (store stz)) (job_key (DocumentNearestZoneJob inherited lt drawn zdb) zpk) = Some held \<longrightarrow>
      Job_get (DocumentNearestZoneJob inherited lt drawn zdb) now zpk stz =
        Some (Inr inherited, stz\<lparr>store := evict now (store stz)\<rparr>)) \<and>
   (store_get (evict now (store stt)) (job_key (DocumentTagsJob inherited' drawn taggings) pk) = None \<and>
    locks (evict now (store stt)) (job_key (DocumentTagsJob inherited' drawn taggings) pk) = Some held \<longrightarrow>
      Job_get (DocumentTagsJob inherited' drawn taggings) now pk stt =
        Some (Inr inherited', stt\<lparr>store := evict now (store stt)\<rparr>))"
proof -
  have lock_miss: "Job_get p t a s = Some (Inr (empty_value p), s\<lparr>store := evict t (store s)\<rparr>)"
    if "store_get (evict t (store s)) (job_key p a) = None \<and>
        locks (evict t (store s)) (job_key p a) = Some held" "fetch_on_miss p"
    for p :: "('x, 'y, 'z) JobPolicy" and t a s
    using that by (intro Job_get_lock_miss) (simp_all add: store_get_def)
  have deferred_miss: "Job_get p t a s =
      Some (Inr (empty_value p), s\<lparr>store := evict t (store s), scheduled := scheduled s @ [a]\<rparr>)"
    if "store_get (evict t (store s)) (job_key p a) = None" "\<not> fetch_on_miss p"
    for p :: "('x, 'y, 'z) JobPolicy" and t a s
    using that by (intro Job_get_deferred_miss) (simp_all add: store_get_def)
  show ?thesis
  proof (intro conjI impI)
    show "DocumentZoneURLRemapsJob_empty = []" by (simp add: DocumentZoneURLRemapsJob_empty_def)
    show "DocumentContributorsJob_empty = []" by (simp add: DocumentContributorsJob_empty_def)
    show "DocumentCodeSampleJob_empty = Map.empty" by (simp add: DocumentCodeSampleJob_empty_def)
  next
    let ?p = "DocumentZoneURLRemapsJob zone_rows"
    assume "store_get (evict now (store st)) (job_key ?p loc) = None \<and>
      locks (evict now (store st)) (job_key ?p loc) = Some held"
    from lock_miss [OF this] show "Job_get ?p now loc st =
        Some (Inr [], st\<lparr>store := evict now (store st)\<rparr>)"
      by (simp add: DocumentZoneURLRemapsJob_def DocumentZoneURLRemapsJob_empty_def)
  next
    let ?p = "(DocumentZoneURLRemapsJob zone_rows)\<lparr>fetch_on_miss := False\<rparr>"
    assume "store_get (evict now (store st)) (job_key (DocumentZoneURLRemapsJob zone_rows) loc) = None"
    then have "store_get (evict now (store st)) (job_key ?p loc) = None"
      by (simp add: job_key_def)
    from deferred_miss [OF this] show "Job_get ?p now loc st =
        Some (Inr [], st\<lparr>store := evict now (store st), scheduled := scheduled st @ [loc]\<rparr>)"
      by (simp add: DocumentZoneURLRemapsJob_def DocumentZoneURLRemapsJob_empty_def)
  next
    let ?p = "DocumentCodeSampleJob code_sample"
    assume "store_get (evict now (store st')) (job_key ?p sample) = None \<and>
      locks (evict now (store st')) (job_key ?p sample) = Some held"
    from lock_miss [OF this] show "Job_get ?p now sample st' =
        Some (Inr Map.empty, st'\<lparr>store := evict now (store st')\<rparr>)"
      by (simp add: DocumentCodeSampleJob_def DocumentCodeSampleJob_empty_def)
  next
    let ?p = "(DocumentCodeSampleJob code_sample)\<lparr>fetch_on_miss := False\<rparr>"
    assume "store_get (evict now (store st')) (job_key (DocumentCodeSampleJob code_sample) sample) = None"
    then have "store_get (evict now (store st')) (job_key ?p sample) = None"
      by (simp add: job_key_def)
    from deferred_miss [OF this] show "Job_get ?p now sample st' =
        Some (Inr Map.empty,
              st'\<lparr>store := evict now (store st'), scheduled := scheduled st' @ [sample]\<rparr>)"
      by (simp add: DocumentCodeSampleJob_def DocumentCodeSampleJob_empty_def)
  next
    let ?p = "DocumentContributorsJob g db"
    assume "store_get (evict now (store stc)) (job_key ?p pk) = None"
    from deferred_miss [OF this] show "Job_get ?p now pk stc =
        Some (Inr [], stc\<lparr>store := evict now (store stc), scheduled := scheduled stc @ [pk]\<rparr>)"
      by (simp add: DocumentContributorsJob_def DocumentContributorsJob_empty_def)
  next
    let ?p = "(DocumentContributorsJob g db)\<lparr>fetch_on_miss := True\<rparr>"
    assume "store_get (evict now (store stc)) (job_key (DocumentContributorsJob g db) pk) = None \<and>
      locks (evict now (store stc)) (job_key (DocumentContributorsJob g db) pk) = Some held"
    then have "store_get (evict now (store stc)) (job_key ?p pk) = None \<and>
      locks (evict now (store stc)) (job_key ?p pk) = Some held"
      by (simp add: job_key_def)
    from lock_miss [OF this] show "Job_get ?p now pk stc =
        Some (Inr [], stc\<lparr>store := evict now (store stc)\<rparr>)"
      by (simp add: DocumentContributorsJob_def DocumentContributorsJob_empty_def)
  next
    let ?p = "DocumentNearestZoneJob inherited lt drawn zdb"
    assume "store_get (evict now (store stz)) (job_key ?p zpk) = None \<and>
      locks (evict now (store stz)) (job_key ?p zpk) = Some held"
    from lock_miss [OF this] show "Job_get ?p now zpk stz =
        Some (Inr inherited, stz\<lparr>store := evict now (store stz)\<rparr>)"
      by (simp add: DocumentNearestZoneJob_def)
  next
    let ?p = "DocumentTagsJob inherited' drawn taggings"
    assume "store_get (evict now (store stt)) (job_key ?p pk) = None \<and>
      locks (evict now (store stt)) (job_key ?p pk) = Some held"
    from lock_miss [OF this] show "Job_get ?p now pk stt =
        Some (Inr inherited', stt\<lparr>store := evict now (store stt)\<rparr>)"
      by (simp add: DocumentTagsJob_def)
  qed
qed

theorem empty_sentinels_typed_witness:
  "map_option fst
     (Job_get (DocumentZoneURLRemapsJob []) 10 ''en-US''
        (locked_engine (job_key (DocumentZoneURLRemapsJob []) ''en-US'') 0 60)) = Some (Inr []) \<and>
   map_option fst
     (Job_get ((DocumentZoneURLRemapsJob [])\<lparr>fetch_on_miss := False\<rparr>) 10 ''en-US'' cold_engine) =
     Some (Inr []) \<and>
   map_option fst
     (Job_get (DocumentCodeSampleJob example_code_sample) 10 (1, ''demo'')
        (locked_engine (job_key (DocumentCodeSampleJob example_code_sample) (1, ''demo'')) 0 60)) =
     Some (Inr Map.empty) \<and>
   map_option fst
     (Job_get ((DocumentCodeSampleJob example_code_sample)\<lparr>fetch_on_miss := False\<rparr>) 10
        (1, ''demo'') cold_engine) = Some (Inr Map.empty) \<and>
   map_option fst
     (Job_get (DocumentContributorsJob example_gravatar_url (example_tables True)) 10 1
        cold_engine) = Some (Inr []) \<and>
   map_option fst
     (Job_get ((DocumentContributorsJob example_gravatar_url (example_tables True))
                 \<lparr>fetch_on_miss := True\<rparr>) 10 1
        (locked_engine
           (job_key (DocumentContributorsJob example_gravatar_url (example_tables True)) 1) 0 60)) =
     Some (Inr []) \<and>
   map_option fst
     (Job_get (DocumentNearestZoneJob (Some ''no zone'') 600 86400
                 \<lparr>documents = [(1, None)], zones = []\<rparr>) 10 (Some 1)
        (locked_engine
           (job_key (DocumentNearestZoneJob (Some ''no zone'') 600 86400
                       \<lparr>documents = [(1, None)], zones = []\<rparr>) (Some 1)) 0 60)) =
     Some (Inr (Some ''no zone'')) \<and>
   map_option fst
     (Job_get (DocumentTagsJob (Some []) 86400 [(1, ''css'')]) 10 1
        (locked_engine (job_key (DocumentTagsJob (Some []) 86400 [(1, ''css'')]) 1) 0 60)) =
     Some (Inr (Some []))"
proof -
  let ?p = "DocumentZoneURLRemapsJob []"
  let ?q = "DocumentCodeSampleJob example_code_sample"
  let ?c = "DocumentContributorsJob example_gravatar_url (example_tables True)"
  let ?z = "DocumentNearestZoneJob (Some ''no zone'') 600 86400
              \<lparr>documents = [(1, None)], zones = [] :: (int \<times> string option) list\<rparr>"
  let ?t = "DocumentTagsJob (Some []) 86400 [(1, ''css'')]"
  let ?lp = "locked_engine (job_key ?p ''en-US'') 0 60 :: (string, (string \<times> string) list) engine"
  let ?lq = "locked_engine (job_key ?q (1, ''demo'')) 0 60 :: (int \<times> string, string \<rightharpoonup> string) engine"
  let ?lc = "locked_engine (job_key ?c 1) 0 60 :: (int, contributor list) engine"
  let ?lz = "locked_engine (job_key ?z (Some 1)) 0 60 :: (int option, string option) engine"
  let ?lt = "locked_engine (job_key ?t 1) 0 60 :: (int, string list option) engine"
  let ?cp = "cold_engine :: (string, (string \<times> string) list) engine"
  let ?cq = "cold_engine :: (int \<times> string, string \<rightharpoonup> string) engine"
  let ?cc = "cold_engine :: (int, contributor list) engine"
  have a: "store_get (evict 10 (store ?lp)) (job_key ?p ''en-US'') = None"
      "locks (evict 10 (store ?lp)) (job_key ?p ''en-US'') = Some (0, 60)"
      "store_get (evict 10 (store ?lq)) (job_key ?q (1, ''demo'')) = None"
      "locks (evict 10 (store ?lq)) (job_key ?q (1, ''demo'')) = Some (0, 60)"
      "store_get (evict 10 (store ?lc)) (job_key ?c 1) = None"
      "locks (evict 10 (store ?lc)) (job_key ?c 1) = Some (0, 60)"
      "store_get (evict 10 (store ?lz)) (job_key ?z (Some 1)) = None"
      "locks (evict 10 (store ?lz)) (job_key ?z (Some 1)) = Some (0, 60)"
      "store_get (evict 10 (store ?lt)) (job_key ?t 1) = None"
      "locks (evict 10 (store ?lt)) (job_key ?t 1) = Some (0, 60)"
    by (simp_all add: store_get_def evict_def locked_engine_def)
  have b: "store_get (evict 10 (store ?cp)) (job_key ?p ''en-US'') = None"
      "store_get (evict 10 (store ?cq)) (job_key ?q (1, ''demo'')) = None"
      "store_get (evict 10 (store ?cc)) (job_key ?c 1) = None"
    by (simp_all add: store_get_def evict_def cold_engine_def)
  note locked = empty_sentinels_typed [where now = 10 and st = "?lp" and zone_rows = "[]" and loc = "''en-US''"
      and held = "(0, 60)" and st' = "?lq" and code_sample = example_code_sample
      and sample = "(1, ''demo'')" and stc = "?lc" and g = example_gravatar_url
      and db = "example_tables True" and pk = 1 and stz = "?lz"
      and inherited = "Some ''no zone''" and lt = 600 and drawn = 86400
      and zdb = "\<lparr>documents = [(1, None)], zones = []\<rparr>" and zpk = "Some 1"
      and stt = "?lt" and inherited' = "Some []" and taggings = "[(1, ''css'')]"]
  note cold = empty_sentinels_typed [where now = 10 and st = "?cp" and zone_rows = "[]" and loc = "''en-US''"
      and held = "(0, 60)" and st' = "?cq" and code_sample = example_code_sample
      and sample = "(1, ''demo'')" and stc = "?cc" and g = example_gravatar_url
      and db = "example_tables True" and pk = 1 and stz = "?lz"
      and inherited = "Some ''no zone''" and lt = 600 and drawn = 86400
      and zdb = "\<lparr>documents = [(1, None)], zones = []\<rparr>" and zpk = "Some 1"
      and stt = "?lt" and inherited' = "Some []" and taggings = "[(1, ''css'')]"]
  from locked a
  have "map_option fst (Job_get ?p 10 ''en-US'' ?lp) = Some (Inr [])"
    "map_option fst (Job_get ?q 10 (1, ''demo'') ?lq) = Some (Inr Map.empty)"
    "map_option fst (Job_get (?c\<lparr>fetch_on_miss := True\<rparr>) 10 1 ?lc) = Some (Inr [])"
    "map_option fst (Job_get ?z 10 (Some 1) ?lz) = Some (Inr (Some ''no zone''))"
    "map_option fst (Job_get ?t 10 1 ?lt) = Some (Inr (Some []))"
    by simp_all
  moreover from cold b
  have "map_option fst (Job_get (?p\<lparr>fetch_on_miss := False\<rparr>) 10 ''en-US'' ?cp) = Some (Inr [])"
    "map_option fst (Job_get (?q\<lparr>fetch_on_miss := False\<rparr>) 10 (1, ''demo'') ?cq) =
      Some (Inr Map.empty)"
    "map_option fst (Job_get ?c 10 1 ?cc) = Some (Inr [])"
    by simp_all
  ultimately show ?thesis by simp
qed

subsection \<open>Callers whose calls overlap\<close>

lemma evict_idem: "evict now (evict now s) = evict now s"
  by (auto simp: evict_def fun_eq_iff split: option.splits)

lemma run_single_caller:
  "run p a [(0, now), (0, now), (0, now)] ([Start], st) =
     map_option (\<lambda>(r, st'). ([Done r], st')) (Job_get p now a st)"
  by (auto simp: caller_step_def Job_get_lookup_def Job_get_lock_def Job_get_def Let_def
      evict_idem try_acquire_lock_def split: option.splits prod.splits bool.splits phase.splits)














end
